theory Spec2Isabelle
  imports Complex_Main "HOL-Library.Word"
begin

section \<open>Training-op update kernels of training_ops_gpu.cu.cc\<close>

text \<open>
  The element types of the source are floating-point types. The embedding is over exact
  arithmetic: \<open>Eigen::half\<close>, \<open>float\<close> and \<open>double\<close> are the reals, \<open>complex64\<close> and
  \<open>complex128\<close> are the complex numbers, and the casts around the \<open>half\<close> specialisations
  are the identity. A literal that takes part in an operation is the rational it denotes;
  the one literal that is stored in a constant of type \<open>T\<close> (\<open>root2\<close> below) is the number
  of \<open>T\<close> nearest to it. Rounding of the operations, overflow, \<open>inf\<close> and \<open>NaN\<close> are
  outside the model: \<open>sqrt\<close> is the real square root and \<open>rsqrt x\<close> is \<open>1 / sqrt x\<close>, which
  agree with the device functions where those return a finite number (non-negative,
  respectively positive argument).
\<close>

subsection \<open>Scalar primitives\<close>

text \<open>The device function \<open>rsqrt\<close> (reciprocal square root) on a real type.\<close>

definition rsqrt :: "real \<Rightarrow> real" where
  "rsqrt x = 1 / sqrt x"

text \<open>\<open>template <typename T> T impl_sqrt(T x)\<close> and \<open>impl_rsqrt\<close>, the generic versions.\<close>

definition impl_sqrt :: "real \<Rightarrow> real" where
  "impl_sqrt x = sqrt x"

definition impl_rsqrt :: "real \<Rightarrow> real" where
  "impl_rsqrt x = rsqrt x"











subsection \<open>Failure, buffers and Eigen tensor expressions\<close>

text \<open>
  A call either returns, or it stops: \<open>Fatal\<close> is the abort of a failed \<open>CHECK\<close> or
  \<open>TF_CHECK_OK\<close>; \<open>OutOfBounds\<close> is a read or write outside a buffer (undefined behaviour
  in the source).
\<close>

datatype error = Fatal | OutOfBounds

definition bind_result :: "error + 'a \<Rightarrow> ('a \<Rightarrow> error + 'b) \<Rightarrow> error + 'b" where
  "bind_result r f = (case r of Inl e \<Rightarrow> Inl e | Inr x \<Rightarrow> f x)"

text \<open>
  An Eigen tensor expression has a size and is evaluated coefficient by coefficient: the
  evaluator of an expression answers \<open>dimensions()\<close> and \<open>coeff(i)\<close>. A \<open>Flat\<close> tensor
  reads its buffer at \<open>i\<close>; \<open>x.reshape(single).broadcast(bcast)\<close> of a scalar \<open>x\<close> has
  \<open>bcast[0]\<close> coefficients and reads the one element of \<open>x\<close> for each; \<open>y.constant(c)\<close>
  has the size of \<open>y\<close> and reads no memory; a \<open>ConstScalar\<close> used as an operand as it is
  (no reshape, no broadcast) is a tensor over a buffer of one element. A coefficient-wise
  expression has the size of its left operand, and the sizes of the operands are not
  compared in a release build: an operand that is shorter is read out of bounds.
\<close>

datatype 'a expr = Expr (dimension: nat) (coeff_at: "nat \<Rightarrow> 'a option")

definition tensor :: "'a list \<Rightarrow> 'a expr" where
  "tensor xs = Expr (length xs) (\<lambda>i. if i < length xs then Some (xs ! i) else None)"

definition broadcast :: "'a \<Rightarrow> nat \<Rightarrow> 'a expr" where
  "broadcast c bcast = Expr bcast (\<lambda>i. Some c)"

definition constant_of :: "'a expr \<Rightarrow> 'a \<Rightarrow> 'a expr" where
  "constant_of x c = Expr (dimension x) (\<lambda>i. Some c)"

definition scalar :: "'a \<Rightarrow> 'a expr" where
  "scalar c = Expr 1 (coeff_at (tensor [c]))"

definition unary :: "('a \<Rightarrow> 'a) \<Rightarrow> 'a expr \<Rightarrow> 'a expr" where
  "unary f a =
     Expr (dimension a) (\<lambda>i. case coeff_at a i of None \<Rightarrow> None | Some x \<Rightarrow> Some (f x))"

definition binary :: "('a \<Rightarrow> 'a \<Rightarrow> 'a) \<Rightarrow> 'a expr \<Rightarrow> 'a expr \<Rightarrow> 'a expr" where
  "binary f a b =
     Expr (dimension a)
       (\<lambda>i. case coeff_at a i of None \<Rightarrow> None
            | Some x \<Rightarrow> (case coeff_at b i of None \<Rightarrow> None | Some y \<Rightarrow> Some (f x y)))"

definition square :: "'a::times \<Rightarrow> 'a" where
  "square x = x * x"

text \<open>
  \<open>dst.device(d) = e\<close>, \<open>dst.device(d) += e\<close> and \<open>dst.device(d) -= e\<close>. The assignment
  evaluates as many coefficients as \<open>e\<close> has and writes each to \<open>dst\<close>; the compound
  assignments assign \<open>dst + e\<close> and \<open>dst - e\<close>.
\<close>

definition device_assign :: "'a list \<Rightarrow> 'a expr \<Rightarrow> error + 'a list" where
  "device_assign dst e =
     (if dimension e \<le> length dst then
        (case those (map (coeff_at e) [0..<dimension e]) of
           None \<Rightarrow> Inl OutOfBounds
         | Some ys \<Rightarrow> Inr (ys @ drop (dimension e) dst))
      else Inl OutOfBounds)"

definition device_add_assign :: "('a::plus) list \<Rightarrow> 'a expr \<Rightarrow> error + 'a list" where
  "device_add_assign dst e = device_assign dst (binary (+) (tensor dst) e)"

definition device_sub_assign :: "('a::minus) list \<Rightarrow> 'a expr \<Rightarrow> error + 'a list" where
  "device_sub_assign dst e = device_assign dst (binary (-) (tensor dst) e)"

subsection \<open>Element types\<close>

text \<open>
  The template parameter \<open>T\<close>: the overloads of \<open>impl_sqrt\<close> and \<open>impl_rsqrt\<close> that the
  kernels resolve to for \<open>T\<close>, and the coefficient-wise \<open>sqrt()\<close> and \<open>rsqrt()\<close> of Eigen
  for \<open>T\<close>. Eigen is a library outside the repository; its roots are taken to be the
  mathematical ones (for a complex type the principal root). The three real types differ
  in their rounding only, so in exact arithmetic they have the same roots.
\<close>

record 'a elem_type =
  impl_sqrt_T :: "'a \<Rightarrow> 'a"
  impl_rsqrt_T :: "'a \<Rightarrow> 'a"
  sqrt_T :: "'a \<Rightarrow> 'a"
  rsqrt_T :: "'a \<Rightarrow> 'a"



definition T_double :: "real elem_type" where
  "T_double = \<lparr>impl_sqrt_T = impl_sqrt, impl_rsqrt_T = impl_rsqrt,
               sqrt_T = sqrt, rsqrt_T = rsqrt\<rparr>"



subsection \<open>Kernel launch\<close>

text \<open>
  The device, as far as a launch depends on it: whether \<open>GpuLaunchKernel\<close> returns an OK
  status.
\<close>

record GPUDevice =
  launch_ok :: bool

record GpuLaunchConfig =
  virtual_thread_count :: int

text \<open>\<open>int32 data_dim = grad.dimension(0)\<close>: the length, narrowed to 32 bits.\<close>

definition int32_of_Index :: "nat \<Rightarrow> int" where
  "int32_of_Index n = sint (word_of_nat n :: 32 word)"

text \<open>
  Modelled from the spec: \<open>GetGpuLaunchConfig\<close> is declared in gpu_launch_config.h, which
  is not among the sources. The spec: a launch is requested "with a specified per-call
  work count (N)", and an "invalid launch configuration (e.g., N=0 ...) is a fatal
  condition for that call". The block geometry of the configuration does not decide
  which indices are processed and is left out.
\<close>

definition GetGpuLaunchConfig :: "int \<Rightarrow> GPUDevice \<Rightarrow> error + GpuLaunchConfig" where
  "GetGpuLaunchConfig work_element_count d =
     (if work_element_count > 0
      then Inr \<lparr>virtual_thread_count = work_element_count\<rparr>
      else Inl Fatal)"

text \<open>
  Modelled from the spec: \<open>GpuLaunchKernel\<close> and \<open>TF_CHECK_OK\<close> are not among the sources.
  The spec: the launch returns "success/failure of launch", and a launch failure is
  "treated as fatal/unrecoverable for that call". So
  \<open>TF_CHECK_OK(GpuLaunchKernel(kernel, ..., args))\<close> runs the kernel when the launch
  succeeds and aborts otherwise.
\<close>

definition GpuLaunchKernel :: "GPUDevice \<Rightarrow> error + 's \<Rightarrow> error + 's" where
  "GpuLaunchKernel d run = (if launch_ok d then run else Inl Fatal)"

text \<open>
  Modelled from the spec: the macro \<open>GPU_1D_KERNEL_LOOP(i, n)\<close> is defined in
  gpu_kernel_helper.h, which is not among the sources. The spec: "an explicit parallel
  loop over indices 0..N-1", the units of work "logically independent and unordered".
  Every kernel body below reads and writes index \<open>i\<close> of its arrays only, so the indices
  are taken in ascending order here.
\<close>

primrec kernel_loop :: "nat \<Rightarrow> (nat \<Rightarrow> 's \<Rightarrow> error + 's) \<Rightarrow> 's \<Rightarrow> error + 's" where
  "kernel_loop 0 body s = Inr s"
| "kernel_loop (Suc n) body s = bind_result (kernel_loop n body s) (body n)"

definition GPU_1D_KERNEL_LOOP :: "int \<Rightarrow> (nat \<Rightarrow> 's \<Rightarrow> error + 's) \<Rightarrow> 's \<Rightarrow> error + 's" where
  "GPU_1D_KERNEL_LOOP n body s = kernel_loop (nat n) body s"

text \<open>A kernel dereferences its pointers at \<open>i\<close>: every buffer must reach that far.\<close>

definition in_bounds :: "nat \<Rightarrow> 'a list list \<Rightarrow> bool" where
  "in_bounds i bufs = list_all (\<lambda>b. i < length b) bufs"

subsection \<open>The arguments of the functors\<close>

text \<open>
  One record per functor, with the parameters of its \<open>operator()\<close>: a \<open>Flat\<close> is a buffer
  the call may write, a \<open>ConstFlat\<close> and a \<open>ConstScalar\<close> are read only. The buffers of
  one call are distinct. The parameter \<open>accum_update\<close> of Adadelta is the field
  \<open>accum_upd\<close>: the update function of the field \<open>accum\<close> has its name.
\<close>

record 'a GradientDescent =
  var :: "'a list"
  lr :: 'a
  grad :: "'a list"

record 'a Adagrad =
  var :: "'a list"
  accum :: "'a list"
  lr :: 'a
  grad :: "'a list"
  update_slots :: bool

record 'a AdagradV2 =
  var :: "'a list"
  accum :: "'a list"
  lr :: 'a
  epsilon :: 'a
  grad :: "'a list"
  update_slots :: bool

record 'a Adadelta =
  var :: "'a list"
  accum :: "'a list"
  accum_upd :: "'a list"
  lr :: 'a
  rho :: 'a
  epsilon :: 'a
  grad :: "'a list"

record 'a Momentum =
  var :: "'a list"
  accum :: "'a list"
  lr :: 'a
  grad :: "'a list"
  momentum :: 'a
  use_nesterov :: bool

record 'a KerasMomentum =
  var :: "'a list"
  accum :: "'a list"
  lr :: 'a
  grad :: "'a list"
  momentum :: 'a
  use_nesterov :: bool

record 'a Adam =
  var :: "'a list"
  m :: "'a list"
  v :: "'a list"
  beta1_power :: 'a
  beta2_power :: 'a
  lr :: 'a
  beta1 :: 'a
  beta2 :: 'a
  epsilon :: 'a
  grad :: "'a list"
  use_nesterov :: bool

record 'a AdamWithAmsgrad =
  var :: "'a list"
  m :: "'a list"
  v :: "'a list"
  vhat :: "'a list"
  beta1_power :: 'a
  beta2_power :: 'a
  lr :: 'a
  beta1 :: 'a
  beta2 :: 'a
  epsilon :: 'a
  grad :: "'a list"

record 'a AdaMax =
  var :: "'a list"
  m :: "'a list"
  v :: "'a list"
  beta1_power :: 'a
  lr :: 'a
  beta1 :: 'a
  beta2 :: 'a
  epsilon :: 'a
  grad :: "'a list"

record 'a RMSProp =
  var :: "'a list"
  ms :: "'a list"
  mom :: "'a list"
  lr :: 'a
  rho :: 'a
  momentum :: 'a
  epsilon :: 'a
  grad :: "'a list"

record 'a CenteredRMSProp =
  var :: "'a list"
  mg :: "'a list"
  ms :: "'a list"
  mom :: "'a list"
  lr :: 'a
  rho :: 'a
  momentum :: 'a
  epsilon :: 'a
  grad :: "'a list"

record 'a AddSign =
  var :: "'a list"
  m :: "'a list"
  lr :: 'a
  alpha :: 'a
  sign_decay :: 'a
  beta :: 'a
  grad :: "'a list"

record 'a PowerSign =
  var :: "'a list"
  m :: "'a list"
  lr :: 'a
  logbase :: 'a
  sign_decay :: 'a
  beta :: 'a
  grad :: "'a list"

subsection \<open>The explicit kernels (ROCm)\<close>

definition ApplyAdagradKernel ::
  "('a::field) elem_type \<Rightarrow> GpuLaunchConfig \<Rightarrow> 'a Adagrad \<Rightarrow> error + 'a Adagrad" where
  "ApplyAdagradKernel T cfg =
     GPU_1D_KERNEL_LOOP (virtual_thread_count cfg) (\<lambda>i s.
       if in_bounds i [Adagrad.var s, Adagrad.accum s, Adagrad.grad s] then
         (let s = (if Adagrad.update_slots s
                   then s\<lparr>Adagrad.accum := (Adagrad.accum s)
                          [i := Adagrad.accum s ! i + Adagrad.grad s ! i * Adagrad.grad s ! i]\<rparr>
                   else s)
          in Inr (s\<lparr>Adagrad.var := (Adagrad.var s)
                    [i := Adagrad.var s ! i
                          - Adagrad.lr s * Adagrad.grad s ! i
                            * impl_rsqrt_T T (Adagrad.accum s ! i)]\<rparr>))
       else Inl OutOfBounds)"

definition ApplyAdagradV2Kernel ::
  "('a::field) elem_type \<Rightarrow> GpuLaunchConfig \<Rightarrow> 'a AdagradV2 \<Rightarrow> error + 'a AdagradV2" where
  "ApplyAdagradV2Kernel T cfg =
     GPU_1D_KERNEL_LOOP (virtual_thread_count cfg) (\<lambda>i s.
       if in_bounds i [AdagradV2.var s, AdagradV2.accum s, AdagradV2.grad s] then
         (let s = (if AdagradV2.update_slots s
                   then s\<lparr>AdagradV2.accum := (AdagradV2.accum s)
                          [i := AdagradV2.accum s ! i
                                + AdagradV2.grad s ! i * AdagradV2.grad s ! i]\<rparr>
                   else s);
              update = AdagradV2.grad s ! i
                         / (impl_sqrt_T T (AdagradV2.accum s ! i) + AdagradV2.epsilon s)
          in Inr (s\<lparr>AdagradV2.var := (AdagradV2.var s)
                    [i := AdagradV2.var s ! i - AdagradV2.lr s * update]\<rparr>))
       else Inl OutOfBounds)"

definition ApplyAdadeltaKernel ::
  "('a::field) elem_type \<Rightarrow> GpuLaunchConfig \<Rightarrow> 'a Adadelta \<Rightarrow> error + 'a Adadelta" where
  "ApplyAdadeltaKernel T cfg s0 =
     (let rho = Adadelta.rho s0; eps = Adadelta.epsilon s0; lr = Adadelta.lr s0 in
      GPU_1D_KERNEL_LOOP (virtual_thread_count cfg) (\<lambda>i s.
        if in_bounds i [Adadelta.var s, Adadelta.accum s, Adadelta.accum_upd s,
                        Adadelta.grad s] then
          (let s = s\<lparr>Adadelta.accum := (Adadelta.accum s)
                     [i := Adadelta.accum s ! i * rho
                           + Adadelta.grad s ! i * Adadelta.grad s ! i * (1 - rho)]\<rparr>;
               update = impl_sqrt_T T (Adadelta.accum_upd s ! i + eps) * Adadelta.grad s ! i
                          * impl_rsqrt_T T (Adadelta.accum s ! i + eps);
               s = s\<lparr>Adadelta.var := (Adadelta.var s)
                     [i := Adadelta.var s ! i - update * lr]\<rparr>
           in Inr (s\<lparr>Adadelta.accum_upd := (Adadelta.accum_upd s)
                     [i := Adadelta.accum_upd s ! i * rho + update * update * (1 - rho)]\<rparr>))
        else Inl OutOfBounds) s0)"

definition ApplyRMSPropKernel ::
  "('a::field) elem_type \<Rightarrow> GpuLaunchConfig \<Rightarrow> 'a RMSProp \<Rightarrow> error + 'a RMSProp" where
  "ApplyRMSPropKernel T cfg s0 =
     (let rho = RMSProp.rho s0; eps = RMSProp.epsilon s0; lr = RMSProp.lr s0;
          momentum = RMSProp.momentum s0 in
      GPU_1D_KERNEL_LOOP (virtual_thread_count cfg) (\<lambda>i s.
        if in_bounds i [RMSProp.var s, RMSProp.ms s, RMSProp.mom s, RMSProp.grad s] then
          (let s = s\<lparr>RMSProp.ms := (RMSProp.ms s)
                     [i := RMSProp.ms s ! i
                           + (1 - rho) * (RMSProp.grad s ! i * RMSProp.grad s ! i
                                          - RMSProp.ms s ! i)]\<rparr>;
               s = s\<lparr>RMSProp.mom := (RMSProp.mom s)
                     [i := RMSProp.mom s ! i * momentum
                           + lr * RMSProp.grad s ! i * impl_rsqrt_T T (eps + RMSProp.ms s ! i)]\<rparr>
           in Inr (s\<lparr>RMSProp.var := (RMSProp.var s)
                     [i := RMSProp.var s ! i - RMSProp.mom s ! i]\<rparr>))
        else Inl OutOfBounds) s0)"

definition ApplyCenteredRMSPropKernel ::
  "('a::field) elem_type \<Rightarrow> GpuLaunchConfig \<Rightarrow> 'a CenteredRMSProp
     \<Rightarrow> error + 'a CenteredRMSProp" where
  "ApplyCenteredRMSPropKernel T cfg s0 =
     (let rho = CenteredRMSProp.rho s0; eps = CenteredRMSProp.epsilon s0;
          lr = CenteredRMSProp.lr s0; momentum = CenteredRMSProp.momentum s0;
          one_minus_rho = 1 - rho in
      GPU_1D_KERNEL_LOOP (virtual_thread_count cfg) (\<lambda>i s.
        if in_bounds i [CenteredRMSProp.var s, CenteredRMSProp.mg s, CenteredRMSProp.ms s,
                        CenteredRMSProp.mom s, CenteredRMSProp.grad s] then
          (let s = s\<lparr>CenteredRMSProp.ms := (CenteredRMSProp.ms s)
                     [i := CenteredRMSProp.ms s ! i
                           + one_minus_rho
                             * (CenteredRMSProp.grad s ! i * CenteredRMSProp.grad s ! i
                                - CenteredRMSProp.ms s ! i)]\<rparr>;
               s = s\<lparr>CenteredRMSProp.mg := (CenteredRMSProp.mg s)
                     [i := CenteredRMSProp.mg s ! i
                           + one_minus_rho
                             * (CenteredRMSProp.grad s ! i - CenteredRMSProp.mg s ! i)]\<rparr>;
               denom = (CenteredRMSProp.ms s ! i
                        - CenteredRMSProp.mg s ! i * CenteredRMSProp.mg s ! i) + eps;
               s = s\<lparr>CenteredRMSProp.mom := (CenteredRMSProp.mom s)
                     [i := CenteredRMSProp.mom s ! i * momentum
                           + lr * CenteredRMSProp.grad s ! i * impl_rsqrt_T T denom]\<rparr>
           in Inr (s\<lparr>CenteredRMSProp.var := (CenteredRMSProp.var s)
                     [i := CenteredRMSProp.var s ! i - CenteredRMSProp.mom s ! i]\<rparr>))
        else Inl OutOfBounds) s0)"

subsection \<open>The functors\<close>

text \<open>
  Each functor is its \<open>operator()\<close>. Where the source chooses between the kernel launch
  and the Eigen expressions with \<open>#if TENSORFLOW_USE_ROCM\<close>, the macro is the first
  argument.
\<close>

definition ApplyGradientDescent ::
  "GPUDevice \<Rightarrow> ('a::field) GradientDescent \<Rightarrow> error + 'a GradientDescent" where
  "ApplyGradientDescent d s =
     (let bcast = length (GradientDescent.grad s) in
     bind_result
       (device_sub_assign (GradientDescent.var s)
          (binary (*) (broadcast (GradientDescent.lr s) bcast) (tensor (GradientDescent.grad
              s))))
       (\<lambda>x. Inr (s\<lparr>GradientDescent.var := x\<rparr>)))"

definition ApplyAdagrad ::
  "bool \<Rightarrow> ('a::field) elem_type \<Rightarrow> GPUDevice \<Rightarrow> 'a Adagrad \<Rightarrow> error + 'a Adagrad" where
  "ApplyAdagrad TENSORFLOW_USE_ROCM T d s =
     (if TENSORFLOW_USE_ROCM then
        (let data_dim = int32_of_Index (length (Adagrad.grad s)) in
         bind_result (GetGpuLaunchConfig data_dim d) (\<lambda>config.
         GpuLaunchKernel d (ApplyAdagradKernel T config s)))
      else
        (let bcast = length (Adagrad.grad s) in
        bind_result
          (if Adagrad.update_slots s
           then bind_result
                  (device_add_assign (Adagrad.accum s) (unary square (tensor (Adagrad.grad s))))
                  (\<lambda>x. Inr (s\<lparr>Adagrad.accum := x\<rparr>))
           else Inr s) (\<lambda>s.
        bind_result
          (device_sub_assign (Adagrad.var s)
             (binary (*) (binary (*) (broadcast (Adagrad.lr s) bcast) (tensor (Adagrad.grad s)))
                         (unary (rsqrt_T T) (tensor (Adagrad.accum s)))))
          (\<lambda>x. Inr (s\<lparr>Adagrad.var := x\<rparr>)))))"

definition ApplyAdagradV2 ::
  "bool \<Rightarrow> ('a::field) elem_type \<Rightarrow> GPUDevice \<Rightarrow> 'a AdagradV2 \<Rightarrow> error + 'a AdagradV2" where
  "ApplyAdagradV2 TENSORFLOW_USE_ROCM T d s =
     (if TENSORFLOW_USE_ROCM then
        (let data_dim = int32_of_Index (length (AdagradV2.grad s)) in
         bind_result (GetGpuLaunchConfig data_dim d) (\<lambda>config.
         GpuLaunchKernel d (ApplyAdagradV2Kernel T config s)))
      else
        (let bcast = length (AdagradV2.grad s) in
        bind_result
          (if AdagradV2.update_slots s
           then bind_result
                  (device_add_assign (AdagradV2.accum s)
                     (unary square (tensor (AdagradV2.grad s))))
                  (\<lambda>x. Inr (s\<lparr>AdagradV2.accum := x\<rparr>))
           else Inr s) (\<lambda>s.
        (let update = binary (/) (tensor (AdagradV2.grad s))
                        (binary (+) (unary (sqrt_T T) (tensor (AdagradV2.accum s)))
                                    (broadcast (AdagradV2.epsilon s) bcast)) in
         bind_result
           (device_sub_assign (AdagradV2.var s)
              (binary (*) (broadcast (AdagradV2.lr s) bcast) update))
           (\<lambda>x. Inr (s\<lparr>AdagradV2.var := x\<rparr>))))))"

definition ApplyAdadelta ::
  "bool \<Rightarrow> ('a::field) elem_type \<Rightarrow> GPUDevice \<Rightarrow> 'a Adadelta \<Rightarrow> error + 'a Adadelta" where
  "ApplyAdadelta TENSORFLOW_USE_ROCM T d s =
     (if TENSORFLOW_USE_ROCM then
        (let data_dim = int32_of_Index (length (Adadelta.grad s)) in
         bind_result (GetGpuLaunchConfig data_dim d) (\<lambda>config.
         GpuLaunchKernel d (ApplyAdadeltaKernel T config s)))
      else
        (let bcast = length (Adadelta.grad s) in
        bind_result
          (device_assign (Adadelta.accum s)
             (binary (+)
                (binary (*) (tensor (Adadelta.accum s)) (broadcast (Adadelta.rho s) bcast))
                (binary (*) (unary square (tensor (Adadelta.grad s)))
                            (binary (-) (constant_of (tensor (Adadelta.grad s)) 1)
                                        (broadcast (Adadelta.rho s) bcast)))))
          (\<lambda>x. let s = s\<lparr>Adadelta.accum := x\<rparr>;
                   update = binary (*)
                     (binary (*)
                        (unary (sqrt_T T)
                           (binary (+) (tensor (Adadelta.accum_upd s))
                                       (broadcast (Adadelta.epsilon s) bcast)))
                        (unary (rsqrt_T T)
                           (binary (+) (tensor (Adadelta.accum s))
                                       (broadcast (Adadelta.epsilon s) bcast))))
                     (tensor (Adadelta.grad s)) in
        bind_result
          (device_sub_assign (Adadelta.var s) (binary (*) update (broadcast (Adadelta.lr s)
              bcast)))
          (\<lambda>x. let s = s\<lparr>Adadelta.var := x\<rparr> in
        bind_result
          (device_assign (Adadelta.accum_upd s)
             (binary (+)
                (binary (*) (tensor (Adadelta.accum_upd s)) (broadcast (Adadelta.rho s) bcast))
                (binary (*) (unary square update)
                            (binary (-) (constant_of (tensor (Adadelta.grad s)) 1)
                                        (broadcast (Adadelta.rho s) bcast)))))
          (\<lambda>x. Inr (s\<lparr>Adadelta.accum_upd := x\<rparr>))))))"

definition ApplyMomentum ::
  "GPUDevice \<Rightarrow> ('a::field) Momentum \<Rightarrow> error + 'a Momentum" where
  "ApplyMomentum d s =
     (let bcast = length (Momentum.grad s) in
     bind_result
       (device_assign (Momentum.accum s)
          (binary (+)
             (binary (*) (tensor (Momentum.accum s)) (broadcast (Momentum.momentum s) bcast))
             (tensor (Momentum.grad s))))
       (\<lambda>x. let s = s\<lparr>Momentum.accum := x\<rparr> in
     if Momentum.use_nesterov s then
       bind_result
         (device_sub_assign (Momentum.var s)
            (binary (+)
               (binary (*) (tensor (Momentum.grad s)) (broadcast (Momentum.lr s) bcast))
               (binary (*)
                  (binary (*) (tensor (Momentum.accum s)) (broadcast (Momentum.momentum s)
                      bcast))
                  (broadcast (Momentum.lr s) bcast))))
         (\<lambda>x. Inr (s\<lparr>Momentum.var := x\<rparr>))
     else
       bind_result
         (device_sub_assign (Momentum.var s)
            (binary (*) (broadcast (Momentum.lr s) bcast) (tensor (Momentum.accum s))))
         (\<lambda>x. Inr (s\<lparr>Momentum.var := x\<rparr>))))"

definition ApplyKerasMomentum ::
  "GPUDevice \<Rightarrow> ('a::field) KerasMomentum \<Rightarrow> error + 'a KerasMomentum" where
  "ApplyKerasMomentum d s =
     (let bcast = length (KerasMomentum.grad s) in
     bind_result
       (device_assign (KerasMomentum.accum s)
          (binary (-)
             (binary (*) (tensor (KerasMomentum.accum s))
                         (broadcast (KerasMomentum.momentum s) bcast))
             (binary (*) (tensor (KerasMomentum.grad s)) (broadcast (KerasMomentum.lr s)
                 bcast))))
       (\<lambda>x. let s = s\<lparr>KerasMomentum.accum := x\<rparr> in
     if KerasMomentum.use_nesterov s then
       bind_result
         (device_add_assign (KerasMomentum.var s)
            (binary (-)
               (binary (*) (tensor (KerasMomentum.accum s))
                           (broadcast (KerasMomentum.momentum s) bcast))
               (binary (*) (tensor (KerasMomentum.grad s)) (broadcast (KerasMomentum.lr s)
                   bcast))))
         (\<lambda>x. Inr (s\<lparr>KerasMomentum.var := x\<rparr>))
     else
       bind_result
         (device_add_assign (KerasMomentum.var s) (tensor (KerasMomentum.accum s)))
         (\<lambda>x. Inr (s\<lparr>KerasMomentum.var := x\<rparr>))))"

text \<open>
  In \<open>ApplyAdam\<close> and \<open>ApplyAdamWithAmsgrad\<close> the step size is computed on the scalars
  (tensors of rank 0) and broadcast afterwards.
\<close>

definition ApplyAdam ::
  "('a::field) elem_type \<Rightarrow> GPUDevice \<Rightarrow> 'a Adam \<Rightarrow> error + 'a Adam" where
  "ApplyAdam T d s =
     (let bcast = length (Adam.grad s); one = 1 in
      bind_result
        (device_assign (Adam.m s)
           (binary (+) (tensor (Adam.m s))
              (binary (*) (broadcast (one - Adam.beta1 s) bcast)
                          (binary (-) (tensor (Adam.grad s)) (tensor (Adam.m s))))))
        (\<lambda>x. let s = s\<lparr>Adam.m := x\<rparr> in
      bind_result
        (device_assign (Adam.v s)
           (binary (+) (tensor (Adam.v s))
              (binary (*) (broadcast (one - Adam.beta2 s) bcast)
                          (binary (-) (unary square (tensor (Adam.grad s)))
                                      (tensor (Adam.v s))))))
        (\<lambda>x. let s = s\<lparr>Adam.v := x\<rparr> in
      if Adam.use_nesterov s then
        bind_result
          (device_sub_assign (Adam.var s)
             (binary (/)
                (binary (*)
                   (broadcast (Adam.lr s * sqrt_T T (one - Adam.beta2_power s)
                                 / (one - Adam.beta1_power s)) bcast)
                   (binary (+)
                      (binary (*) (tensor (Adam.m s)) (broadcast (Adam.beta1 s) bcast))
                      (binary (*) (broadcast (one - Adam.beta1 s) bcast) (tensor (Adam.grad
                          s)))))
                (binary (+) (broadcast (Adam.epsilon s) bcast)
                            (unary (sqrt_T T) (tensor (Adam.v s))))))
          (\<lambda>x. Inr (s\<lparr>Adam.var := x\<rparr>))
      else
        bind_result
          (device_sub_assign (Adam.var s)
             (binary (/)
                (binary (*)
                   (broadcast (Adam.lr s * sqrt_T T (one - Adam.beta2_power s)
                                 / (one - Adam.beta1_power s)) bcast)
                   (tensor (Adam.m s)))
                (binary (+) (broadcast (Adam.epsilon s) bcast)
                            (unary (sqrt_T T) (tensor (Adam.v s))))))
          (\<lambda>x. Inr (s\<lparr>Adam.var := x\<rparr>)))))"

text \<open>
  The functors below are instantiated for \<open>Eigen::half\<close>, \<open>float\<close> and \<open>double\<close> only;
  \<open>cwiseMax\<close>, \<open>abs\<close>, \<open>sign\<close> and \<open>exp\<close> are those of the reals.
\<close>

definition ApplyAdamWithAmsgrad ::
  "real elem_type \<Rightarrow> GPUDevice \<Rightarrow> real AdamWithAmsgrad \<Rightarrow> error + real AdamWithAmsgrad" where
  "ApplyAdamWithAmsgrad T d s =
     (let bcast = length (AdamWithAmsgrad.grad s); one = 1 in
      bind_result
        (device_assign (AdamWithAmsgrad.m s)
           (binary (+) (tensor (AdamWithAmsgrad.m s))
              (binary (*) (broadcast (one - AdamWithAmsgrad.beta1 s) bcast)
                          (binary (-) (tensor (AdamWithAmsgrad.grad s))
                                      (tensor (AdamWithAmsgrad.m s))))))
        (\<lambda>x. let s = s\<lparr>AdamWithAmsgrad.m := x\<rparr> in
      bind_result
        (device_assign (AdamWithAmsgrad.v s)
           (binary (+) (tensor (AdamWithAmsgrad.v s))
              (binary (*) (broadcast (one - AdamWithAmsgrad.beta2 s) bcast)
                          (binary (-) (unary square (tensor (AdamWithAmsgrad.grad s)))
                                      (tensor (AdamWithAmsgrad.v s))))))
        (\<lambda>x. let s = s\<lparr>AdamWithAmsgrad.v := x\<rparr> in
      bind_result
        (device_assign (AdamWithAmsgrad.vhat s)
           (binary max (tensor (AdamWithAmsgrad.vhat s)) (tensor (AdamWithAmsgrad.v s))))
        (\<lambda>x. let s = s\<lparr>AdamWithAmsgrad.vhat := x\<rparr> in
      bind_result
        (device_sub_assign (AdamWithAmsgrad.var s)
           (binary (/)
              (binary (*)
                 (broadcast (AdamWithAmsgrad.lr s
                               * sqrt_T T (one - AdamWithAmsgrad.beta2_power s)
                               / (one - AdamWithAmsgrad.beta1_power s)) bcast)
                 (tensor (AdamWithAmsgrad.m s)))
              (binary (+) (broadcast (AdamWithAmsgrad.epsilon s) bcast)
                          (unary (sqrt_T T) (tensor (AdamWithAmsgrad.vhat s))))))
        (\<lambda>x. Inr (s\<lparr>AdamWithAmsgrad.var := x\<rparr>))))))"

text \<open>
  In the last statement of \<open>ApplyAdaMax\<close> the operands \<open>lr\<close> and \<open>epsilon\<close> are the
  \<open>ConstScalar\<close> arguments as they are: neither is reshaped or broadcast.
\<close>

definition ApplyAdaMax ::
  "GPUDevice \<Rightarrow> real AdaMax \<Rightarrow> error + real AdaMax" where
  "ApplyAdaMax d s =
     (let bcast = length (AdaMax.grad s); one = 1 in
      bind_result
        (device_assign (AdaMax.m s)
           (binary (+) (tensor (AdaMax.m s))
              (binary (*) (broadcast (one - AdaMax.beta1 s) bcast)
                          (binary (-) (tensor (AdaMax.grad s)) (tensor (AdaMax.m s))))))
        (\<lambda>x. let s = s\<lparr>AdaMax.m := x\<rparr> in
      bind_result
        (device_assign (AdaMax.v s)
           (binary max
              (binary (*) (broadcast (AdaMax.beta2 s) bcast) (tensor (AdaMax.v s)))
              (unary abs (tensor (AdaMax.grad s)))))
        (\<lambda>x. let s = s\<lparr>AdaMax.v := x\<rparr> in
      bind_result
        (device_sub_assign (AdaMax.var s)
           (binary (*)
              (binary (/) (scalar (AdaMax.lr s)) (broadcast (one - AdaMax.beta1_power s) bcast))
              (binary (/) (tensor (AdaMax.m s))
                          (binary (+) (tensor (AdaMax.v s)) (scalar (AdaMax.epsilon s))))))
        (\<lambda>x. Inr (s\<lparr>AdaMax.var := x\<rparr>)))))"

definition ApplyRMSProp ::
  "bool \<Rightarrow> ('a::field) elem_type \<Rightarrow> GPUDevice \<Rightarrow> 'a RMSProp \<Rightarrow> error + 'a RMSProp" where
  "ApplyRMSProp TENSORFLOW_USE_ROCM T d s =
     (if TENSORFLOW_USE_ROCM then
        (let data_dim = int32_of_Index (length (RMSProp.grad s)) in
         bind_result (GetGpuLaunchConfig data_dim d) (\<lambda>config.
         GpuLaunchKernel d (ApplyRMSPropKernel T config s)))
      else
        (let bcast = length (RMSProp.grad s); one = 1 in
         bind_result
           (device_assign (RMSProp.ms s)
              (binary (+) (tensor (RMSProp.ms s))
                 (binary (*) (broadcast (one - RMSProp.rho s) bcast)
                             (binary (-) (unary square (tensor (RMSProp.grad s)))
                                         (tensor (RMSProp.ms s))))))
           (\<lambda>x. let s = s\<lparr>RMSProp.ms := x\<rparr> in
         bind_result
           (device_assign (RMSProp.mom s)
              (binary (+)
                 (binary (*) (tensor (RMSProp.mom s)) (broadcast (RMSProp.momentum s) bcast))
                 (binary (/)
                    (binary (*) (broadcast (RMSProp.lr s) bcast) (tensor (RMSProp.grad s)))
                    (unary (sqrt_T T)
                       (binary (+) (broadcast (RMSProp.epsilon s) bcast) (tensor (RMSProp.ms
                           s)))))))
           (\<lambda>x. let s = s\<lparr>RMSProp.mom := x\<rparr> in
         bind_result
           (device_sub_assign (RMSProp.var s) (tensor (RMSProp.mom s)))
           (\<lambda>x. Inr (s\<lparr>RMSProp.var := x\<rparr>))))))"

definition ApplyCenteredRMSProp ::
  "bool \<Rightarrow> ('a::field) elem_type \<Rightarrow> GPUDevice \<Rightarrow> 'a CenteredRMSProp
     \<Rightarrow> error + 'a CenteredRMSProp" where
  "ApplyCenteredRMSProp TENSORFLOW_USE_ROCM T d s =
     (if TENSORFLOW_USE_ROCM then
        (let data_dim = int32_of_Index (length (CenteredRMSProp.grad s)) in
         bind_result (GetGpuLaunchConfig data_dim d) (\<lambda>config.
         GpuLaunchKernel d (ApplyCenteredRMSPropKernel T config s)))
      else
        (let bcast = length (CenteredRMSProp.grad s); one = 1;
             one_minus_rho = broadcast (one - CenteredRMSProp.rho s) bcast in
         bind_result
           (device_assign (CenteredRMSProp.ms s)
              (binary (+) (tensor (CenteredRMSProp.ms s))
                 (binary (*) one_minus_rho
                             (binary (-) (unary square (tensor (CenteredRMSProp.grad s)))
                                         (tensor (CenteredRMSProp.ms s))))))
           (\<lambda>x. let s = s\<lparr>CenteredRMSProp.ms := x\<rparr> in
         bind_result
           (device_assign (CenteredRMSProp.mg s)
              (binary (+) (tensor (CenteredRMSProp.mg s))
                 (binary (*) one_minus_rho
                             (binary (-) (tensor (CenteredRMSProp.grad s))
                                         (tensor (CenteredRMSProp.mg s))))))
           (\<lambda>x. let s = s\<lparr>CenteredRMSProp.mg := x\<rparr>;
                    denom = binary (+)
                      (binary (-) (tensor (CenteredRMSProp.ms s))
                                  (unary square (tensor (CenteredRMSProp.mg s))))
                      (broadcast (CenteredRMSProp.epsilon s) bcast) in
         bind_result
           (device_assign (CenteredRMSProp.mom s)
              (binary (+)
                 (binary (*) (tensor (CenteredRMSProp.mom s))
                             (broadcast (CenteredRMSProp.momentum s) bcast))
                 (binary (/)
                    (binary (*) (broadcast (CenteredRMSProp.lr s) bcast)
                                (tensor (CenteredRMSProp.grad s)))
                    (unary (sqrt_T T) denom))))
           (\<lambda>x. let s = s\<lparr>CenteredRMSProp.mom := x\<rparr> in
         bind_result
           (device_sub_assign (CenteredRMSProp.var s) (tensor (CenteredRMSProp.mom s)))
           (\<lambda>x. Inr (s\<lparr>CenteredRMSProp.var := x\<rparr>)))))))"

definition ApplyAddSign ::
  "GPUDevice \<Rightarrow> real AddSign \<Rightarrow> error + real AddSign" where
  "ApplyAddSign d s =
     (let bcast = length (AddSign.grad s); one = 1;
          beta_bcast = broadcast (AddSign.beta s) bcast;
          one_minus_beta = broadcast (one - AddSign.beta s) bcast in
      bind_result
        (device_assign (AddSign.m s)
           (binary (+) (binary (*) (tensor (AddSign.m s)) beta_bcast)
                       (binary (*) (tensor (AddSign.grad s)) one_minus_beta)))
        (\<lambda>x. let s = s\<lparr>AddSign.m := x\<rparr>;
                 sign_gm = binary (*) (unary sgn (tensor (AddSign.grad s)))
                                      (unary sgn (tensor (AddSign.m s)));
                 lr_bcast = broadcast (AddSign.lr s) bcast;
                 alpha_bcast = broadcast (AddSign.alpha s) bcast;
                 sign_decay_bcast = broadcast (AddSign.sign_decay s) bcast in
      bind_result
        (device_sub_assign (AddSign.var s)
           (binary (*)
              (binary (*) lr_bcast
                 (binary (+) alpha_bcast (binary (*) sign_decay_bcast sign_gm)))
              (tensor (AddSign.grad s))))
        (\<lambda>x. Inr (s\<lparr>AddSign.var := x\<rparr>))))"

definition ApplyPowerSign ::
  "GPUDevice \<Rightarrow> real PowerSign \<Rightarrow> error + real PowerSign" where
  "ApplyPowerSign d s =
     (let bcast = length (PowerSign.grad s); one = 1;
          beta_bcast = broadcast (PowerSign.beta s) bcast;
          one_minus_beta = broadcast (one - PowerSign.beta s) bcast in
      bind_result
        (device_assign (PowerSign.m s)
           (binary (+) (binary (*) (tensor (PowerSign.m s)) beta_bcast)
                       (binary (*) (tensor (PowerSign.grad s)) one_minus_beta)))
        (\<lambda>x. let s = s\<lparr>PowerSign.m := x\<rparr>;
                 sign_gm = binary (*) (unary sgn (tensor (PowerSign.grad s)))
                                      (unary sgn (tensor (PowerSign.m s)));
                 lr_bcast = broadcast (PowerSign.lr s) bcast;
                 logbase_bcast = broadcast (PowerSign.logbase s) bcast;
                 sign_decay_bcast = broadcast (PowerSign.sign_decay s) bcast;
                 grad_scale = unary exp
                                (binary (*) (binary (*) logbase_bcast sign_decay_bcast)
                                            sign_gm) in
      bind_result
        (device_sub_assign (PowerSign.var s)
           (binary (*) (binary (*) lr_bcast grad_scale) (tensor (PowerSign.grad s))))
        (\<lambda>x. Inr (s\<lparr>PowerSign.var := x\<rparr>))))"

subsection \<open>Auxiliary notions for the proofs\<close>

text \<open>
  An expression is defined up to \<open>n\<close> when its first \<open>n\<close> coefficients can be read;
  \<open>coeff\<close> is the coefficient then.
\<close>

definition defined_upto :: "nat \<Rightarrow> 'a expr \<Rightarrow> bool" where
  "defined_upto n e = list_all (\<lambda>i. coeff_at e i \<noteq> None) [0..<n]"

definition coeff :: "'a expr \<Rightarrow> nat \<Rightarrow> 'a" where
  "coeff e i = the (coeff_at e i)"

text \<open>
  The values that the kernel families leave at index \<open>j\<close>, as functions of the arguments
  of the call. The square root and the reciprocal square root are parameters: the
  kernels and the Eigen expressions take them from different places.
\<close>

definition Adagrad_new_accum ::
  "('a::field) Adagrad \<Rightarrow> nat \<Rightarrow> 'a" where
  "Adagrad_new_accum s j =
     (if Adagrad.update_slots s
      then Adagrad.accum s ! j + Adagrad.grad s ! j * Adagrad.grad s ! j
      else Adagrad.accum s ! j)"

definition Adagrad_new_var ::
  "('a \<Rightarrow> 'a) \<Rightarrow> ('a::field) Adagrad \<Rightarrow> nat \<Rightarrow> 'a" where
  "Adagrad_new_var rs s j =
     Adagrad.var s ! j - Adagrad.lr s * Adagrad.grad s ! j * rs (Adagrad_new_accum s j)"

definition AdagradV2_new_accum ::
  "('a::field) AdagradV2 \<Rightarrow> nat \<Rightarrow> 'a" where
  "AdagradV2_new_accum s j =
     (if AdagradV2.update_slots s
      then AdagradV2.accum s ! j + AdagradV2.grad s ! j * AdagradV2.grad s ! j
      else AdagradV2.accum s ! j)"

definition AdagradV2_new_var ::
  "('a \<Rightarrow> 'a) \<Rightarrow> ('a::field) AdagradV2 \<Rightarrow> nat \<Rightarrow> 'a" where
  "AdagradV2_new_var sq s j =
     AdagradV2.var s ! j
       - AdagradV2.lr s
         * (AdagradV2.grad s ! j / (sq (AdagradV2_new_accum s j) + AdagradV2.epsilon s))"

definition Adadelta_new_accum ::
  "('a::field) Adadelta \<Rightarrow> nat \<Rightarrow> 'a" where
  "Adadelta_new_accum s j =
     Adadelta.accum s ! j * Adadelta.rho s
       + Adadelta.grad s ! j * Adadelta.grad s ! j * (1 - Adadelta.rho s)"

definition Adadelta_update ::
  "('a \<Rightarrow> 'a) \<Rightarrow> ('a \<Rightarrow> 'a) \<Rightarrow> ('a::field) Adadelta \<Rightarrow> nat \<Rightarrow> 'a" where
  "Adadelta_update sq rs s j =
     sq (Adadelta.accum_upd s ! j + Adadelta.epsilon s) * Adadelta.grad s ! j
       * rs (Adadelta_new_accum s j + Adadelta.epsilon s)"

definition Adadelta_new_var ::
  "('a \<Rightarrow> 'a) \<Rightarrow> ('a \<Rightarrow> 'a) \<Rightarrow> ('a::field) Adadelta \<Rightarrow> nat \<Rightarrow> 'a" where
  "Adadelta_new_var sq rs s j =
     Adadelta.var s ! j - Adadelta_update sq rs s j * Adadelta.lr s"

definition Adadelta_new_accum_upd ::
  "('a \<Rightarrow> 'a) \<Rightarrow> ('a \<Rightarrow> 'a) \<Rightarrow> ('a::field) Adadelta \<Rightarrow> nat \<Rightarrow> 'a" where
  "Adadelta_new_accum_upd sq rs s j =
     Adadelta.accum_upd s ! j * Adadelta.rho s
       + Adadelta_update sq rs s j * Adadelta_update sq rs s j * (1 - Adadelta.rho s)"

definition RMSProp_new_ms ::
  "('a::field) RMSProp \<Rightarrow> nat \<Rightarrow> 'a" where
  "RMSProp_new_ms s j =
     RMSProp.ms s ! j
       + (1 - RMSProp.rho s) * (RMSProp.grad s ! j * RMSProp.grad s ! j - RMSProp.ms s ! j)"

definition RMSProp_new_mom ::
  "('a \<Rightarrow> 'a) \<Rightarrow> ('a::field) RMSProp \<Rightarrow> nat \<Rightarrow> 'a" where
  "RMSProp_new_mom rs s j =
     RMSProp.mom s ! j * RMSProp.momentum s
       + RMSProp.lr s * RMSProp.grad s ! j * rs (RMSProp.epsilon s + RMSProp_new_ms s j)"

definition RMSProp_new_var ::
  "('a \<Rightarrow> 'a) \<Rightarrow> ('a::field) RMSProp \<Rightarrow> nat \<Rightarrow> 'a" where
  "RMSProp_new_var rs s j =
     RMSProp.var s ! j - RMSProp_new_mom rs s j"

definition CenteredRMSProp_new_ms ::
  "('a::field) CenteredRMSProp \<Rightarrow> nat \<Rightarrow> 'a" where
  "CenteredRMSProp_new_ms s j =
     CenteredRMSProp.ms s ! j
       + (1 - CenteredRMSProp.rho s)
         * (CenteredRMSProp.grad s ! j * CenteredRMSProp.grad s ! j - CenteredRMSProp.ms s ! j)"

definition CenteredRMSProp_new_mg ::
  "('a::field) CenteredRMSProp \<Rightarrow> nat \<Rightarrow> 'a" where
  "CenteredRMSProp_new_mg s j =
     CenteredRMSProp.mg s ! j
       + (1 - CenteredRMSProp.rho s) * (CenteredRMSProp.grad s ! j - CenteredRMSProp.mg s ! j)"

definition CenteredRMSProp_denom ::
  "('a::field) CenteredRMSProp \<Rightarrow> nat \<Rightarrow> 'a" where
  "CenteredRMSProp_denom s j =
     (CenteredRMSProp_new_ms s j - CenteredRMSProp_new_mg s j * CenteredRMSProp_new_mg s j)
       + CenteredRMSProp.epsilon s"

definition CenteredRMSProp_new_mom ::
  "('a \<Rightarrow> 'a) \<Rightarrow> ('a::field) CenteredRMSProp \<Rightarrow> nat \<Rightarrow> 'a" where
  "CenteredRMSProp_new_mom rs s j =
     CenteredRMSProp.mom s ! j * CenteredRMSProp.momentum s
       + CenteredRMSProp.lr s * CenteredRMSProp.grad s ! j * rs (CenteredRMSProp_denom s j)"

definition CenteredRMSProp_new_var ::
  "('a \<Rightarrow> 'a) \<Rightarrow> ('a::field) CenteredRMSProp \<Rightarrow> nat \<Rightarrow> 'a" where
  "CenteredRMSProp_new_var rs s j =
     CenteredRMSProp.var s ! j - CenteredRMSProp_new_mom rs s j"









section \<open>Properties\<close>

subsection \<open>Evaluation of tensor expressions\<close>

lemma bind_result_simps [simp]:
  "bind_result (Inl e) f = Inl e"
  "bind_result (Inr x) f = f x"
  by (simp_all add: bind_result_def)

lemma those_map_Some: "those (map Some xs) = Some xs"
  by (induction xs) simp_all

lemma those_None: "None \<in> set xs \<Longrightarrow> those xs = None"
  by (induction xs) (auto split: option.splits)

lemma defined_upto_iff: "defined_upto n e \<longleftrightarrow> (\<forall>i<n. coeff_at e i \<noteq> None)"
  by (auto simp: defined_upto_def list_all_iff)

lemma those_defined:
  assumes "defined_upto n e"
  shows "those (map (coeff_at e) [0..<n]) = Some (map (coeff e) [0..<n])"
proof -
  have "map (coeff_at e) [0..<n] = map Some (map (coeff e) [0..<n])"
    using assms by (auto simp: defined_upto_iff coeff_def)
  then show ?thesis by (simp only: those_map_Some)
qed

lemma those_undefined:
  assumes "i < n" "coeff_at e i = None"
  shows "those (map (coeff_at e) [0..<n]) = None"
proof -
  have "None \<in> set (map (coeff_at e) [0..<n])"
    using assms by (force simp: image_iff)
  then show ?thesis by (rule those_None)
qed

lemma device_assign_defined:
  "dimension e = length dst \<Longrightarrow> defined_upto (length dst) e \<Longrightarrow>
   device_assign dst e = Inr (map (coeff e) [0..<length dst])"
  by (simp add: device_assign_def those_defined)

lemma device_assign_undefined:
  "dimension e = length dst \<Longrightarrow> i < length dst \<Longrightarrow> coeff_at e i = None \<Longrightarrow>
   device_assign dst e = Inl OutOfBounds"
  by (simp add: device_assign_def those_undefined)

lemma dimension_simps [simp]:
  "dimension (tensor xs) = length xs"
  "dimension (broadcast c n) = n"
  "dimension (constant_of x c) = dimension x"
  "dimension (scalar c) = 1"
  "dimension (unary f a) = dimension a"
  "dimension (binary g a b) = dimension a"
  by (simp_all add: tensor_def broadcast_def constant_of_def scalar_def unary_def binary_def)

lemma coeff_at_None_simps [simp]:
  "coeff_at (tensor xs) i = None \<longleftrightarrow> \<not> i < length xs"
  "coeff_at (broadcast c n) i = None \<longleftrightarrow> False"
  "coeff_at (constant_of x c) i = None \<longleftrightarrow> False"
  "coeff_at (scalar c) i = None \<longleftrightarrow> i \<noteq> 0"
  "coeff_at (unary f a) i = None \<longleftrightarrow> coeff_at a i = None"
  "coeff_at (binary g a b) i = None \<longleftrightarrow> coeff_at a i = None \<or> coeff_at b i = None"
  by (simp_all add: tensor_def broadcast_def constant_of_def scalar_def unary_def binary_def
      split: option.splits)

lemma defined_upto_simps [simp]:
  "defined_upto n (tensor xs) \<longleftrightarrow> n \<le> length xs"
  "defined_upto n (broadcast c k)"
  "defined_upto n (constant_of x c)"
  "defined_upto n (scalar c) \<longleftrightarrow> n \<le> 1"
  "defined_upto n (unary f a) \<longleftrightarrow> defined_upto n a"
  "defined_upto n (binary g a b) \<longleftrightarrow> defined_upto n a \<and> defined_upto n b"
  by (auto simp: defined_upto_iff not_less intro: Suc_leI)

lemma coeff_simps [simp]:
  "i < length xs \<Longrightarrow> coeff (tensor xs) i = xs ! i"
  "coeff (broadcast c n) i = c"
  "coeff (constant_of x c) i = c"
  "coeff (scalar c) 0 = c"
  "coeff_at a i \<noteq> None \<Longrightarrow> coeff (unary f a) i = f (coeff a i)"
  "coeff_at a i \<noteq> None \<Longrightarrow> coeff_at b i \<noteq> None \<Longrightarrow>
     coeff (binary g a b) i = g (coeff a i) (coeff b i)"
  by (auto simp: coeff_def tensor_def broadcast_def constant_of_def scalar_def unary_def
      binary_def)

lemmas assign_simps =
  device_assign_defined device_add_assign_def device_sub_assign_def



lemma list_eq_map_upt:
  "length xs = N \<Longrightarrow> (\<And>j. j < N \<Longrightarrow> xs ! j = f j) \<Longrightarrow> xs = map f [0..<N]"
  by (rule nth_equalityI) simp_all

subsection \<open>Kernel launches and loops\<close>

lemma int32_of_Index_small: "n < 2 ^ 31 \<Longrightarrow> int32_of_Index n = int n"
  by (simp add: int32_of_Index_def signed_of_nat signed_take_bit_int_eq_self)

lemma in_bounds_simps [simp]:
  "in_bounds i [] = True"
  "in_bounds i (b # bs) \<longleftrightarrow> i < length b \<and> in_bounds i bs"
  by (simp_all add: in_bounds_def)

lemma kernel_loop_invariant:
  assumes "P 0 s"
    and "\<And>n s'. n < k \<Longrightarrow> P n s' \<Longrightarrow> \<exists>s''. body n s' = Inr s'' \<and> P (Suc n) s''"
  shows "\<exists>s'. kernel_loop k body s = Inr s' \<and> P k s'"
  using assms
proof (induction k)
  case 0
  then show ?case by simp
next
  case (Suc k)
  then obtain s' where "kernel_loop k body s = Inr s'" "P k s'"
    by (metis less_Suc_eq)
  moreover obtain s'' where "body k s' = Inr s''" "P (Suc k) s''"
    using Suc.prems(2) [of k s'] \<open>P k s'\<close> by auto
  ultimately show ?case by simp
qed

subsection \<open>What the five kernel families compute\<close>

text \<open>
  For arrays of one length \<open>N\<close>: the result of each explicit kernel, of the functor that
  launches it (which needs \<open>0 < N < 2\<^sup>3\<^sup>1\<close> and a successful launch), and of the functor
  that evaluates the Eigen expressions.
\<close>

lemma ApplyAdagradKernel_result:
  fixes s :: "('a::field) Adagrad"
  assumes len: "length (Adagrad.var s) = N" "length (Adagrad.accum s) = N"
    "length (Adagrad.grad s) = N"
  shows "ApplyAdagradKernel T \<lparr>virtual_thread_count = int N\<rparr> s =
     Inr (s\<lparr>Adagrad.accum := map (Adagrad_new_accum s) [0..<N],
           Adagrad.var := map (Adagrad_new_var (impl_rsqrt_T T) s) [0..<N]\<rparr>)"
proof -
  let ?P = "\<lambda>n s'. Adagrad.grad s' = Adagrad.grad s
      \<and> Adagrad.lr s' = Adagrad.lr s
      \<and> Adagrad.update_slots s' = Adagrad.update_slots s
      \<and> Adagrad.more s' = Adagrad.more s
      \<and> length (Adagrad.var s') = N
      \<and> length (Adagrad.accum s') = N
      \<and> (\<forall>j<N. Adagrad.accum s' ! j =
            (if j < n then Adagrad_new_accum s j else Adagrad.accum s ! j))
      \<and> (\<forall>j<N. Adagrad.var s' ! j =
            (if j < n then Adagrad_new_var (impl_rsqrt_T T) s j else Adagrad.var s ! j))"
  have "\<exists>s'. ApplyAdagradKernel T \<lparr>virtual_thread_count = int N\<rparr> s = Inr s' \<and> ?P N s'"
    unfolding ApplyAdagradKernel_def GPU_1D_KERNEL_LOOP_def Let_def
    apply (simp only: GpuLaunchConfig.simps nat_int)
    apply (rule kernel_loop_invariant [where P = ?P])
    using len
    by (auto simp: nth_list_update Let_def less_Suc_eq
        Adagrad_new_accum_def Adagrad_new_var_def)
  then obtain s' where
    run: "ApplyAdagradKernel T \<lparr>virtual_thread_count = int N\<rparr> s = Inr s'"
    and inv: "?P N s'" by blast
  have "s' = s\<lparr>Adagrad.accum := map (Adagrad_new_accum s) [0..<N],
              Adagrad.var := map (Adagrad_new_var (impl_rsqrt_T T) s) [0..<N]\<rparr>"
    using inv by (intro Adagrad.equality) (simp_all add: list_eq_map_upt)
  with run show ?thesis by simp
qed

lemma ApplyAdagrad_rocm_result:
  fixes s :: "('a::field) Adagrad"
  assumes len: "length (Adagrad.var s) = N" "length (Adagrad.accum s) = N"
    "length (Adagrad.grad s) = N"
    and N: "0 < N" "N < 2 ^ 31" and ok: "launch_ok d"
  shows "ApplyAdagrad True T d s =
     Inr (s\<lparr>Adagrad.accum := map (Adagrad_new_accum s) [0..<N],
           Adagrad.var := map (Adagrad_new_var (impl_rsqrt_T T) s) [0..<N]\<rparr>)"
proof -
  have "ApplyAdagrad True T d s =
      ApplyAdagradKernel T \<lparr>virtual_thread_count = int N\<rparr> s"
    using len N ok
    by (simp add: ApplyAdagrad_def int32_of_Index_small GetGpuLaunchConfig_def
        GpuLaunchKernel_def)
  then show ?thesis by (simp only: ApplyAdagradKernel_result [OF len])
qed


lemma ApplyAdagradV2Kernel_result:
  fixes s :: "('a::field) AdagradV2"
  assumes len: "length (AdagradV2.var s) = N" "length (AdagradV2.accum s) = N"
    "length (AdagradV2.grad s) = N"
  shows "ApplyAdagradV2Kernel T \<lparr>virtual_thread_count = int N\<rparr> s =
     Inr (s\<lparr>AdagradV2.accum := map (AdagradV2_new_accum s) [0..<N],
           AdagradV2.var := map (AdagradV2_new_var (impl_sqrt_T T) s) [0..<N]\<rparr>)"
proof -
  let ?P = "\<lambda>n s'. AdagradV2.grad s' = AdagradV2.grad s
      \<and> AdagradV2.lr s' = AdagradV2.lr s
      \<and> AdagradV2.epsilon s' = AdagradV2.epsilon s
      \<and> AdagradV2.update_slots s' = AdagradV2.update_slots s
      \<and> AdagradV2.more s' = AdagradV2.more s
      \<and> length (AdagradV2.var s') = N
      \<and> length (AdagradV2.accum s') = N
      \<and> (\<forall>j<N. AdagradV2.accum s' ! j =
            (if j < n then AdagradV2_new_accum s j else AdagradV2.accum s ! j))
      \<and> (\<forall>j<N. AdagradV2.var s' ! j =
            (if j < n then AdagradV2_new_var (impl_sqrt_T T) s j else AdagradV2.var s ! j))"
  have "\<exists>s'. ApplyAdagradV2Kernel T \<lparr>virtual_thread_count = int N\<rparr> s = Inr s' \<and> ?P N s'"
    unfolding ApplyAdagradV2Kernel_def GPU_1D_KERNEL_LOOP_def Let_def
    apply (simp only: GpuLaunchConfig.simps nat_int)
    apply (rule kernel_loop_invariant [where P = ?P])
    using len
    by (auto simp: nth_list_update Let_def less_Suc_eq
        AdagradV2_new_accum_def AdagradV2_new_var_def)
  then obtain s' where
    run: "ApplyAdagradV2Kernel T \<lparr>virtual_thread_count = int N\<rparr> s = Inr s'"
    and inv: "?P N s'" by blast
  have "s' = s\<lparr>AdagradV2.accum := map (AdagradV2_new_accum s) [0..<N],
              AdagradV2.var := map (AdagradV2_new_var (impl_sqrt_T T) s) [0..<N]\<rparr>"
    using inv by (intro AdagradV2.equality) (simp_all add: list_eq_map_upt)
  with run show ?thesis by simp
qed

lemma ApplyAdagradV2_rocm_result:
  fixes s :: "('a::field) AdagradV2"
  assumes len: "length (AdagradV2.var s) = N" "length (AdagradV2.accum s) = N"
    "length (AdagradV2.grad s) = N"
    and N: "0 < N" "N < 2 ^ 31" and ok: "launch_ok d"
  shows "ApplyAdagradV2 True T d s =
     Inr (s\<lparr>AdagradV2.accum := map (AdagradV2_new_accum s) [0..<N],
           AdagradV2.var := map (AdagradV2_new_var (impl_sqrt_T T) s) [0..<N]\<rparr>)"
proof -
  have "ApplyAdagradV2 True T d s =
      ApplyAdagradV2Kernel T \<lparr>virtual_thread_count = int N\<rparr> s"
    using len N ok
    by (simp add: ApplyAdagradV2_def int32_of_Index_small GetGpuLaunchConfig_def
        GpuLaunchKernel_def)
  then show ?thesis by (simp only: ApplyAdagradV2Kernel_result [OF len])
qed


lemma ApplyAdadeltaKernel_result:
  fixes s :: "('a::field) Adadelta"
  assumes len: "length (Adadelta.var s) = N" "length (Adadelta.accum s) = N"
    "length (Adadelta.accum_upd s) = N" "length (Adadelta.grad s) = N"
  shows "ApplyAdadeltaKernel T \<lparr>virtual_thread_count = int N\<rparr> s =
     Inr (s\<lparr>Adadelta.accum := map (Adadelta_new_accum s) [0..<N],
           Adadelta.var := map (Adadelta_new_var (impl_sqrt_T T) (impl_rsqrt_T T) s) [0..<N],
           Adadelta.accum_upd := map (Adadelta_new_accum_upd (impl_sqrt_T T) (impl_rsqrt_T
               T) s) [0..<N]\<rparr>)"
proof -
  let ?P = "\<lambda>n s'. Adadelta.grad s' = Adadelta.grad s
      \<and> Adadelta.lr s' = Adadelta.lr s
      \<and> Adadelta.rho s' = Adadelta.rho s
      \<and> Adadelta.epsilon s' = Adadelta.epsilon s
      \<and> Adadelta.more s' = Adadelta.more s
      \<and> length (Adadelta.var s') = N
      \<and> length (Adadelta.accum s') = N
      \<and> length (Adadelta.accum_upd s') = N
      \<and> (\<forall>j<N. Adadelta.accum s' ! j =
            (if j < n then Adadelta_new_accum s j else Adadelta.accum s ! j))
      \<and> (\<forall>j<N. Adadelta.var s' ! j =
            (if j < n then Adadelta_new_var (impl_sqrt_T T) (impl_rsqrt_T T) s j else
                Adadelta.var s ! j))
      \<and> (\<forall>j<N. Adadelta.accum_upd s' ! j =
            (if j < n then Adadelta_new_accum_upd (impl_sqrt_T T) (impl_rsqrt_T T) s j else
                Adadelta.accum_upd s ! j))"
  have "\<exists>s'. ApplyAdadeltaKernel T \<lparr>virtual_thread_count = int N\<rparr> s = Inr s' \<and> ?P N s'"
    unfolding ApplyAdadeltaKernel_def GPU_1D_KERNEL_LOOP_def Let_def
    apply (simp only: GpuLaunchConfig.simps nat_int)
    apply (rule kernel_loop_invariant [where P = ?P])
    using len
    by (auto simp: nth_list_update Let_def less_Suc_eq
        Adadelta_new_accum_def Adadelta_update_def Adadelta_new_var_def
            Adadelta_new_accum_upd_def)
  then obtain s' where
    run: "ApplyAdadeltaKernel T \<lparr>virtual_thread_count = int N\<rparr> s = Inr s'"
    and inv: "?P N s'" by blast
  have "s' = s\<lparr>Adadelta.accum := map (Adadelta_new_accum s) [0..<N],
              Adadelta.var := map (Adadelta_new_var (impl_sqrt_T T) (impl_rsqrt_T T) s) [0..<N],
              Adadelta.accum_upd := map (Adadelta_new_accum_upd (impl_sqrt_T T)
                  (impl_rsqrt_T T) s) [0..<N]\<rparr>"
    using inv by (intro Adadelta.equality) (simp_all add: list_eq_map_upt)
  with run show ?thesis by simp
qed

lemma ApplyAdadelta_rocm_result:
  fixes s :: "('a::field) Adadelta"
  assumes len: "length (Adadelta.var s) = N" "length (Adadelta.accum s) = N"
    "length (Adadelta.accum_upd s) = N" "length (Adadelta.grad s) = N"
    and N: "0 < N" "N < 2 ^ 31" and ok: "launch_ok d"
  shows "ApplyAdadelta True T d s =
     Inr (s\<lparr>Adadelta.accum := map (Adadelta_new_accum s) [0..<N],
           Adadelta.var := map (Adadelta_new_var (impl_sqrt_T T) (impl_rsqrt_T T) s) [0..<N],
           Adadelta.accum_upd := map (Adadelta_new_accum_upd (impl_sqrt_T T) (impl_rsqrt_T
               T) s) [0..<N]\<rparr>)"
proof -
  have "ApplyAdadelta True T d s =
      ApplyAdadeltaKernel T \<lparr>virtual_thread_count = int N\<rparr> s"
    using len N ok
    by (simp add: ApplyAdadelta_def int32_of_Index_small GetGpuLaunchConfig_def
        GpuLaunchKernel_def)
  then show ?thesis by (simp only: ApplyAdadeltaKernel_result [OF len])
qed


lemma ApplyRMSPropKernel_result:
  fixes s :: "('a::field) RMSProp"
  assumes len: "length (RMSProp.var s) = N" "length (RMSProp.ms s) = N"
    "length (RMSProp.mom s) = N" "length (RMSProp.grad s) = N"
  shows "ApplyRMSPropKernel T \<lparr>virtual_thread_count = int N\<rparr> s =
     Inr (s\<lparr>RMSProp.ms := map (RMSProp_new_ms s) [0..<N],
           RMSProp.mom := map (RMSProp_new_mom (impl_rsqrt_T T) s) [0..<N],
           RMSProp.var := map (RMSProp_new_var (impl_rsqrt_T T) s) [0..<N]\<rparr>)"
proof -
  let ?P = "\<lambda>n s'. RMSProp.grad s' = RMSProp.grad s
      \<and> RMSProp.lr s' = RMSProp.lr s
      \<and> RMSProp.rho s' = RMSProp.rho s
      \<and> RMSProp.momentum s' = RMSProp.momentum s
      \<and> RMSProp.epsilon s' = RMSProp.epsilon s
      \<and> RMSProp.more s' = RMSProp.more s
      \<and> length (RMSProp.var s') = N
      \<and> length (RMSProp.ms s') = N
      \<and> length (RMSProp.mom s') = N
      \<and> (\<forall>j<N. RMSProp.ms s' ! j =
            (if j < n then RMSProp_new_ms s j else RMSProp.ms s ! j))
      \<and> (\<forall>j<N. RMSProp.mom s' ! j =
            (if j < n then RMSProp_new_mom (impl_rsqrt_T T) s j else RMSProp.mom s ! j))
      \<and> (\<forall>j<N. RMSProp.var s' ! j =
            (if j < n then RMSProp_new_var (impl_rsqrt_T T) s j else RMSProp.var s ! j))"
  have "\<exists>s'. ApplyRMSPropKernel T \<lparr>virtual_thread_count = int N\<rparr> s = Inr s' \<and> ?P N s'"
    unfolding ApplyRMSPropKernel_def GPU_1D_KERNEL_LOOP_def Let_def
    apply (simp only: GpuLaunchConfig.simps nat_int)
    apply (rule kernel_loop_invariant [where P = ?P])
    using len
    by (auto simp: nth_list_update Let_def less_Suc_eq
        RMSProp_new_ms_def RMSProp_new_mom_def RMSProp_new_var_def)
  then obtain s' where
    run: "ApplyRMSPropKernel T \<lparr>virtual_thread_count = int N\<rparr> s = Inr s'"
    and inv: "?P N s'" by blast
  have "s' = s\<lparr>RMSProp.ms := map (RMSProp_new_ms s) [0..<N],
              RMSProp.mom := map (RMSProp_new_mom (impl_rsqrt_T T) s) [0..<N],
              RMSProp.var := map (RMSProp_new_var (impl_rsqrt_T T) s) [0..<N]\<rparr>"
    using inv by (intro RMSProp.equality) (simp_all add: list_eq_map_upt)
  with run show ?thesis by simp
qed

lemma ApplyRMSProp_rocm_result:
  fixes s :: "('a::field) RMSProp"
  assumes len: "length (RMSProp.var s) = N" "length (RMSProp.ms s) = N"
    "length (RMSProp.mom s) = N" "length (RMSProp.grad s) = N"
    and N: "0 < N" "N < 2 ^ 31" and ok: "launch_ok d"
  shows "ApplyRMSProp True T d s =
     Inr (s\<lparr>RMSProp.ms := map (RMSProp_new_ms s) [0..<N],
           RMSProp.mom := map (RMSProp_new_mom (impl_rsqrt_T T) s) [0..<N],
           RMSProp.var := map (RMSProp_new_var (impl_rsqrt_T T) s) [0..<N]\<rparr>)"
proof -
  have "ApplyRMSProp True T d s =
      ApplyRMSPropKernel T \<lparr>virtual_thread_count = int N\<rparr> s"
    using len N ok
    by (simp add: ApplyRMSProp_def int32_of_Index_small GetGpuLaunchConfig_def
        GpuLaunchKernel_def)
  then show ?thesis by (simp only: ApplyRMSPropKernel_result [OF len])
qed


lemma ApplyCenteredRMSPropKernel_result:
  fixes s :: "('a::field) CenteredRMSProp"
  assumes len: "length (CenteredRMSProp.var s) = N" "length (CenteredRMSProp.mg s) = N"
    "length (CenteredRMSProp.ms s) = N" "length (CenteredRMSProp.mom s) = N"
    "length (CenteredRMSProp.grad s) = N"
  shows "ApplyCenteredRMSPropKernel T \<lparr>virtual_thread_count = int N\<rparr> s =
     Inr (s\<lparr>CenteredRMSProp.ms := map (CenteredRMSProp_new_ms s) [0..<N],
           CenteredRMSProp.mg := map (CenteredRMSProp_new_mg s) [0..<N],
           CenteredRMSProp.mom := map (CenteredRMSProp_new_mom (impl_rsqrt_T T) s) [0..<N],
           CenteredRMSProp.var := map (CenteredRMSProp_new_var (impl_rsqrt_T T) s) [0..<N]\<rparr>)"
proof -
  let ?P = "\<lambda>n s'. CenteredRMSProp.grad s' = CenteredRMSProp.grad s
      \<and> CenteredRMSProp.lr s' = CenteredRMSProp.lr s
      \<and> CenteredRMSProp.rho s' = CenteredRMSProp.rho s
      \<and> CenteredRMSProp.momentum s' = CenteredRMSProp.momentum s
      \<and> CenteredRMSProp.epsilon s' = CenteredRMSProp.epsilon s
      \<and> CenteredRMSProp.more s' = CenteredRMSProp.more s
      \<and> length (CenteredRMSProp.var s') = N
      \<and> length (CenteredRMSProp.mg s') = N
      \<and> length (CenteredRMSProp.ms s') = N
      \<and> length (CenteredRMSProp.mom s') = N
      \<and> (\<forall>j<N. CenteredRMSProp.ms s' ! j =
            (if j < n then CenteredRMSProp_new_ms s j else CenteredRMSProp.ms s ! j))
      \<and> (\<forall>j<N. CenteredRMSProp.mg s' ! j =
            (if j < n then CenteredRMSProp_new_mg s j else CenteredRMSProp.mg s ! j))
      \<and> (\<forall>j<N. CenteredRMSProp.mom s' ! j =
            (if j < n then CenteredRMSProp_new_mom (impl_rsqrt_T T) s j else
                CenteredRMSProp.mom s ! j))
      \<and> (\<forall>j<N. CenteredRMSProp.var s' ! j =
            (if j < n then CenteredRMSProp_new_var (impl_rsqrt_T T) s j else
                CenteredRMSProp.var s ! j))"
  have "\<exists>s'. ApplyCenteredRMSPropKernel T \<lparr>virtual_thread_count = int N\<rparr> s = Inr s' \<and> ?P N s'"
    unfolding ApplyCenteredRMSPropKernel_def GPU_1D_KERNEL_LOOP_def Let_def
    apply (simp only: GpuLaunchConfig.simps nat_int)
    apply (rule kernel_loop_invariant [where P = ?P])
    using len
    by (auto simp: nth_list_update Let_def less_Suc_eq
        CenteredRMSProp_new_ms_def CenteredRMSProp_new_mg_def CenteredRMSProp_denom_def
            CenteredRMSProp_new_mom_def CenteredRMSProp_new_var_def)
  then obtain s' where
    run: "ApplyCenteredRMSPropKernel T \<lparr>virtual_thread_count = int N\<rparr> s = Inr s'"
    and inv: "?P N s'" by blast
  have "s' = s\<lparr>CenteredRMSProp.ms := map (CenteredRMSProp_new_ms s) [0..<N],
              CenteredRMSProp.mg := map (CenteredRMSProp_new_mg s) [0..<N],
              CenteredRMSProp.mom := map (CenteredRMSProp_new_mom (impl_rsqrt_T T) s) [0..<N],
              CenteredRMSProp.var := map (CenteredRMSProp_new_var (impl_rsqrt_T T) s) [0..<N]\<rparr>"
    using inv by (intro CenteredRMSProp.equality) (simp_all add: list_eq_map_upt)
  with run show ?thesis by simp
qed

lemma ApplyCenteredRMSProp_rocm_result:
  fixes s :: "('a::field) CenteredRMSProp"
  assumes len: "length (CenteredRMSProp.var s) = N" "length (CenteredRMSProp.mg s) = N"
    "length (CenteredRMSProp.ms s) = N" "length (CenteredRMSProp.mom s) = N"
    "length (CenteredRMSProp.grad s) = N"
    and N: "0 < N" "N < 2 ^ 31" and ok: "launch_ok d"
  shows "ApplyCenteredRMSProp True T d s =
     Inr (s\<lparr>CenteredRMSProp.ms := map (CenteredRMSProp_new_ms s) [0..<N],
           CenteredRMSProp.mg := map (CenteredRMSProp_new_mg s) [0..<N],
           CenteredRMSProp.mom := map (CenteredRMSProp_new_mom (impl_rsqrt_T T) s) [0..<N],
           CenteredRMSProp.var := map (CenteredRMSProp_new_var (impl_rsqrt_T T) s) [0..<N]\<rparr>)"
proof -
  have "ApplyCenteredRMSProp True T d s =
      ApplyCenteredRMSPropKernel T \<lparr>virtual_thread_count = int N\<rparr> s"
    using len N ok
    by (simp add: ApplyCenteredRMSProp_def int32_of_Index_small GetGpuLaunchConfig_def
        GpuLaunchKernel_def)
  then show ?thesis by (simp only: ApplyCenteredRMSPropKernel_result [OF len])
qed



subsection \<open>The constant root2\<close>














subsection \<open>The hand-written complex square root\<close>






subsection \<open>The hand-written complex reciprocal square root\<close>












subsection \<open>The kernel path and the Eigen path\<close>









subsection \<open>Adam\<close>

text \<open>
  C5. With all four arrays of length \<open>N\<close>, \<open>ApplyAdam\<close> returns, and at every index
  \<open>m += (1 - beta1) * (grad - m)\<close>, \<open>v += (1 - beta2) * (grad\<^sup>2 - v)\<close> and, with the step size
  \<open>alpha = lr * sqrt (1 - beta2_power) / (1 - beta1_power)\<close>, \<open>var\<close> is decremented by
  \<open>alpha * (m * beta1 + (1 - beta1) * grad) / (eps + sqrt v)\<close> under \<open>use_nesterov\<close> and by
  \<open>alpha * m / (eps + sqrt v)\<close> otherwise, \<open>m\<close> and \<open>v\<close> being the updated values. The
  concrete step with \<open>beta1 = 0.9\<close>, \<open>beta2 = 0.999\<close>, \<open>beta1_power = 0.9\<close>,
  \<open>beta2_power = 0.999\<close>, \<open>lr = 0.001\<close>, \<open>eps = 1e-8\<close>, \<open>m = [0]\<close>, \<open>v = [0]\<close>, \<open>grad = [1]\<close>
  yields \<open>m = [0.1]\<close>, \<open>v = [0.001]\<close> and \<open>var\<close> decremented by
  \<open>alpha * 0.1 / (1e-8 + sqrt 0.001)\<close>.
\<close>

theorem ApplyAdam_update:
  fixes s :: "('a::field) Adam"
  assumes "length (Adam.var s) = N" "length (Adam.m s) = N" "length (Adam.v s) = N"
    "length (Adam.grad s) = N"
  shows "(\<exists>s'. ApplyAdam T d s = Inr s'
    \<and> length (Adam.m s') = N \<and> length (Adam.v s') = N \<and> length (Adam.var s') = N
    \<and> (\<forall>i<N. Adam.m s' ! i =
          Adam.m s ! i + (1 - Adam.beta1 s) * (Adam.grad s ! i - Adam.m s ! i))
    \<and> (\<forall>i<N. Adam.v s' ! i =
          Adam.v s ! i
          + (1 - Adam.beta2 s) * (Adam.grad s ! i * Adam.grad s ! i - Adam.v s ! i))
    \<and> (let alpha = Adam.lr s * sqrt_T T (1 - Adam.beta2_power s) / (1 - Adam.beta1_power s)
       in \<forall>i<N. Adam.var s' ! i =
          (if Adam.use_nesterov s
           then Adam.var s ! i
                  - alpha * (Adam.m s' ! i * Adam.beta1 s + (1 - Adam.beta1 s) * Adam.grad s
                      ! i)
                    / (Adam.epsilon s + sqrt_T T (Adam.v s' ! i))
           else Adam.var s ! i
                  - alpha * Adam.m s' ! i / (Adam.epsilon s + sqrt_T T (Adam.v s' ! i)))))
    \<and> ApplyAdam T_double d0
        \<lparr>Adam.var = [x0], m = [0], v = [0], beta1_power = 0.9, beta2_power = 0.999,
         lr = 0.001, beta1 = 0.9, beta2 = 0.999, epsilon = 1 / 10 ^ 8, grad = [1],
         use_nesterov = False\<rparr>
      = Inr \<lparr>Adam.var = [x0 - (0.001 * sqrt (1 - 0.999) / (1 - 0.9)) * 0.1
                                / (1 / 10 ^ 8 + sqrt 0.001)],
             m = [0.1], v = [0.001], beta1_power = 0.9, beta2_power = 0.999,
             lr = 0.001, beta1 = 0.9, beta2 = 0.999, epsilon = 1 / 10 ^ 8, grad = [1],
             use_nesterov = False\<rparr>"
proof -
  have "ApplyAdam T_double d0
        \<lparr>Adam.var = [x0], m = [0], v = [0], beta1_power = 0.9, beta2_power = 0.999,
         lr = 0.001, beta1 = 0.9, beta2 = 0.999, epsilon = 1 / 10 ^ 8, grad = [1],
         use_nesterov = False\<rparr>
      = Inr \<lparr>Adam.var = [x0 - (0.001 * sqrt (1 - 0.999) / (1 - 0.9)) * 0.1
                                / (1 / 10 ^ 8 + sqrt 0.001)],
             m = [0.1], v = [0.001], beta1_power = 0.9, beta2_power = 0.999,
             lr = 0.001, beta1 = 0.9, beta2 = 0.999, epsilon = 1 / 10 ^ 8, grad = [1],
             use_nesterov = False\<rparr>"
    by (simp add: ApplyAdam_def Let_def assign_simps square_def T_double_def)
  moreover have "\<exists>s'. ApplyAdam T d s = Inr s'
    \<and> length (Adam.m s') = N \<and> length (Adam.v s') = N \<and> length (Adam.var s') = N
    \<and> (\<forall>i<N. Adam.m s' ! i =
          Adam.m s ! i + (1 - Adam.beta1 s) * (Adam.grad s ! i - Adam.m s ! i))
    \<and> (\<forall>i<N. Adam.v s' ! i =
          Adam.v s ! i
          + (1 - Adam.beta2 s) * (Adam.grad s ! i * Adam.grad s ! i - Adam.v s ! i))
    \<and> (let alpha = Adam.lr s * sqrt_T T (1 - Adam.beta2_power s) / (1 - Adam.beta1_power s)
       in \<forall>i<N. Adam.var s' ! i =
          (if Adam.use_nesterov s
           then Adam.var s ! i
                  - alpha * (Adam.m s' ! i * Adam.beta1 s + (1 - Adam.beta1 s) * Adam.grad s
                      ! i)
                    / (Adam.epsilon s + sqrt_T T (Adam.v s' ! i))
           else Adam.var s ! i
                  - alpha * Adam.m s' ! i / (Adam.epsilon s + sqrt_T T (Adam.v s' ! i))))"
    using assms by (simp add: ApplyAdam_def Let_def assign_simps square_def)
  ultimately show ?thesis by blast
qed

theorem ApplyAdam_update_witness:
  "length [5, 7 :: real] = 2 \<and> length [1, 0 :: real] = 2 \<and> length [0, 4 :: real] = 2
   \<and> length [2, 1 :: real] = 2
   \<and> ApplyAdam T_double \<lparr>launch_ok = True\<rparr>
          \<lparr>Adam.var = [5, 7], m = [1, 0], v = [0, 4], beta1_power = 0,
           beta2_power = 0, lr = 1, beta1 = 1 / 2, beta2 = 0, epsilon = 1,
           grad = [2, 1], use_nesterov = True\<rparr>
     = Inr \<lparr>Adam.var = [53 / 12, 53 / 8], m = [3 / 2, 1 / 2], v = [4, 1], beta1_power = 0,
           beta2_power = 0, lr = 1, beta1 = 1 / 2, beta2 = 0, epsilon = 1,
           grad = [2, 1], use_nesterov = True\<rparr>"
  using ApplyAdam_update [of "\<lparr>Adam.var = [5, 7], m = [1, 0], v = [0, 4], beta1_power = 0,
           beta2_power = 0, lr = 1, beta1 = 1 / 2, beta2 = 0, epsilon = 1,
           grad = [2, 1 :: real], use_nesterov = True\<rparr>" 2 T_double "\<lparr>launch_ok = True\<rparr>"]
  by (simp add: ApplyAdam_def Let_def assign_simps square_def T_double_def)

text \<open>
  C10. Two runs of \<open>ApplyAdam\<close> from the same arguments that differ in \<open>use_nesterov\<close>
  only: whenever both return, the arrays \<open>m\<close> and \<open>v\<close> they leave are equal; and both
  return when the four arrays have one length.
\<close>

theorem ApplyAdam_nesterov_independent:
  fixes s :: "('a::field) Adam"
  shows "(ApplyAdam T d (s\<lparr>Adam.use_nesterov := True\<rparr>) = Inr s1 \<longrightarrow>
          ApplyAdam T d (s\<lparr>Adam.use_nesterov := False\<rparr>) = Inr s2 \<longrightarrow>
          Adam.m s1 = Adam.m s2 \<and> Adam.v s1 = Adam.v s2)
       \<and> (length (Adam.var s) = length (Adam.grad s) \<longrightarrow>
          length (Adam.m s) = length (Adam.grad s) \<longrightarrow>
          length (Adam.v s) = length (Adam.grad s) \<longrightarrow>
          (\<exists>t1 t2. ApplyAdam T d (s\<lparr>Adam.use_nesterov := True\<rparr>) = Inr t1
                 \<and> ApplyAdam T d (s\<lparr>Adam.use_nesterov := False\<rparr>) = Inr t2
                 \<and> Adam.m t1 = Adam.m t2 \<and> Adam.v t1 = Adam.v t2))"
proof -
  have "Adam.m s1 = Adam.m s2 \<and> Adam.v s1 = Adam.v s2"
    if "ApplyAdam T d (s\<lparr>Adam.use_nesterov := True\<rparr>) = Inr s1"
      and "ApplyAdam T d (s\<lparr>Adam.use_nesterov := False\<rparr>) = Inr s2"
    using that
    by (auto simp: ApplyAdam_def Let_def bind_result_def split: sum.splits)
  moreover have "\<exists>t1 t2. ApplyAdam T d (s\<lparr>Adam.use_nesterov := True\<rparr>) = Inr t1
                 \<and> ApplyAdam T d (s\<lparr>Adam.use_nesterov := False\<rparr>) = Inr t2
                 \<and> Adam.m t1 = Adam.m t2 \<and> Adam.v t1 = Adam.v t2"
    if "length (Adam.var s) = length (Adam.grad s)"
      "length (Adam.m s) = length (Adam.grad s)" "length (Adam.v s) = length (Adam.grad s)"
    using that by (simp add: ApplyAdam_def Let_def assign_simps)
  ultimately show ?thesis by blast
qed

theorem ApplyAdam_nesterov_independent_witness:
  "ApplyAdam T_double \<lparr>launch_ok = True\<rparr>
      \<lparr>Adam.var = [5, 7], m = [1, 0], v = [0, 4], beta1_power = 0,
       beta2_power = 0, lr = 1, beta1 = 1 / 2, beta2 = 0, epsilon = 1,
       grad = [2, 1], use_nesterov = True\<rparr>
     = Inr \<lparr>Adam.var = [53 / 12, 53 / 8], m = [3 / 2, 1 / 2], v = [4, 1], beta1_power = 0,
           beta2_power = 0, lr = 1, beta1 = 1 / 2, beta2 = 0, epsilon = 1,
           grad = [2, 1], use_nesterov = True\<rparr>
   \<and> ApplyAdam T_double \<lparr>launch_ok = True\<rparr>
      \<lparr>Adam.var = [5, 7], m = [1, 0], v = [0, 4], beta1_power = 0,
       beta2_power = 0, lr = 1, beta1 = 1 / 2, beta2 = 0, epsilon = 1,
       grad = [2, 1], use_nesterov = False\<rparr>
     = Inr \<lparr>Adam.var = [9 / 2, 27 / 4], m = [3 / 2, 1 / 2], v = [4, 1], beta1_power = 0,
           beta2_power = 0, lr = 1, beta1 = 1 / 2, beta2 = 0, epsilon = 1,
           grad = [2, 1], use_nesterov = False\<rparr>
   \<and> length [5, 7 :: real] = length [2, 1 :: real]"
  using ApplyAdam_nesterov_independent [of T_double "\<lparr>launch_ok = True\<rparr>"
      "\<lparr>Adam.var = [5, 7], m = [1, 0], v = [0, 4], beta1_power = 0,
       beta2_power = 0, lr = 1, beta1 = 1 / 2, beta2 = 0, epsilon = 1,
       grad = [2, 1 :: real], use_nesterov = True\<rparr>"]
  by (simp add: ApplyAdam_def Let_def assign_simps square_def T_double_def)

subsection \<open>Adam with AMSGrad\<close>

text \<open>
  C9. With all five arrays of length \<open>N\<close>, \<open>ApplyAdamWithAmsgrad\<close> returns, and at every
  index the new \<open>vhat\<close> is the maximum of the old \<open>vhat\<close> and the updated \<open>v\<close>, hence not
  below the old \<open>vhat\<close>.
\<close>

theorem ApplyAdamWithAmsgrad_vhat:
  assumes "length (AdamWithAmsgrad.var s) = N" "length (AdamWithAmsgrad.m s) = N"
    "length (AdamWithAmsgrad.v s) = N" "length (AdamWithAmsgrad.vhat s) = N"
    "length (AdamWithAmsgrad.grad s) = N"
  shows "\<exists>s'. ApplyAdamWithAmsgrad T d s = Inr s'
    \<and> length (AdamWithAmsgrad.v s') = N \<and> length (AdamWithAmsgrad.vhat s') = N
    \<and> (\<forall>i<N. AdamWithAmsgrad.v s' ! i =
          AdamWithAmsgrad.v s ! i
          + (1 - AdamWithAmsgrad.beta2 s)
            * (AdamWithAmsgrad.grad s ! i * AdamWithAmsgrad.grad s ! i
               - AdamWithAmsgrad.v s ! i))
    \<and> (\<forall>i<N. AdamWithAmsgrad.vhat s' ! i =
          max (AdamWithAmsgrad.vhat s ! i) (AdamWithAmsgrad.v s' ! i))
    \<and> (\<forall>i<N. AdamWithAmsgrad.vhat s ! i \<le> AdamWithAmsgrad.vhat s' ! i)"
  using assms
  by (simp add: ApplyAdamWithAmsgrad_def Let_def assign_simps square_def)

theorem ApplyAdamWithAmsgrad_vhat_witness:
  "length [5, 7 :: real] = 2 \<and> length [1, 0 :: real] = 2 \<and> length [0, 4 :: real] = 2
   \<and> length [4, 0 :: real] = 2 \<and> length [1, 1 :: real] = 2
   \<and> ApplyAdamWithAmsgrad T_double \<lparr>launch_ok = True\<rparr>
        \<lparr>AdamWithAmsgrad.var = [5, 7], m = [1, 0], v = [0, 4], vhat = [4, 0],
         beta1_power = 0, beta2_power = 0, lr = 1, beta1 = 1 / 2, beta2 = 0, epsilon = 1,
         grad = [1, 1]\<rparr>
     = Inr \<lparr>AdamWithAmsgrad.var = [14 / 3, 27 / 4], m = [1, 1 / 2], v = [1, 1],
            vhat = [4, 1], beta1_power = 0, beta2_power = 0, lr = 1, beta1 = 1 / 2,
            beta2 = 0, epsilon = 1, grad = [1, 1]\<rparr>"
  using ApplyAdamWithAmsgrad_vhat [of "\<lparr>AdamWithAmsgrad.var = [5, 7], m = [1, 0], v = [0, 4],
         vhat = [4, 0], beta1_power = 0, beta2_power = 0, lr = 1, beta1 = 1 / 2, beta2 = 0,
         epsilon = 1, grad = [1, 1]\<rparr>" 2 T_double "\<lparr>launch_ok = True\<rparr>"]
  by (simp add: ApplyAdamWithAmsgrad_def Let_def assign_simps square_def T_double_def)

subsection \<open>Adagrad\<close>





subsection \<open>AdaMax\<close>

lemma ApplyAdaMax_out_of_bounds:
  assumes len: "length (AdaMax.var s) = N" "length (AdaMax.m s) = N"
      "length (AdaMax.v s) = N" "length (AdaMax.grad s) = N"
    and N: "2 \<le> N"
  shows "ApplyAdaMax d s = Inl OutOfBounds"
proof -
  have "device_sub_assign (AdaMax.var s) (binary (*)
          (binary (/) (scalar (AdaMax.lr s)) (broadcast c N)) e) = Inl OutOfBounds" for c e
    unfolding device_sub_assign_def
    by (rule device_assign_undefined [where i = 1]) (use len N in simp_all)
  then show ?thesis
    using len by (simp add: ApplyAdaMax_def Let_def assign_simps)
qed

lemma ApplyAdaMax_single:
  assumes len: "length (AdaMax.var s) = 1" "length (AdaMax.m s) = 1"
      "length (AdaMax.v s) = 1" "length (AdaMax.grad s) = 1"
  shows "\<exists>s'. ApplyAdaMax d s = Inr s'
     \<and> AdaMax.m s' = [AdaMax.m s ! 0 + (1 - AdaMax.beta1 s) * (AdaMax.grad s ! 0 - AdaMax.m
         s ! 0)]
     \<and> AdaMax.v s' = [max (AdaMax.beta2 s * AdaMax.v s ! 0) \<bar>AdaMax.grad s ! 0\<bar>]
     \<and> AdaMax.var s' = [AdaMax.var s ! 0
          - AdaMax.lr s / (1 - AdaMax.beta1_power s)
            * (AdaMax.m s' ! 0 / (AdaMax.v s' ! 0 + AdaMax.epsilon s))]"
  using len by (simp add: ApplyAdaMax_def Let_def assign_simps)

text \<open>
  C6. \<open>ApplyAdaMax\<close> on two elements: the update of \<open>var\<close> takes \<open>lr\<close> and \<open>epsilon\<close> without a
  broadcast, coefficient \<open>1\<close> of the expression reads element \<open>1\<close> of these one-element
  buffers, and the call does not return an updated \<open>var\<close>. On one element it computes
  \<open>m += (1 - beta1) * (grad - m)\<close>, \<open>v = max (beta2 * v) |grad|\<close> and
  \<open>var -= lr / (1 - beta1_power) * (m / (v + eps))\<close>.
\<close>

theorem ApplyAdaMax_two_elements:
  "ApplyAdaMax \<lparr>launch_ok = True\<rparr>
     \<lparr>AdaMax.var = [0, 0], m = [0, 0], v = [0, 0], beta1_power = 1 / 2, lr = 1,
      beta1 = 1 / 2, beta2 = 1 / 2, epsilon = 1, grad = [1, 1]\<rparr>
   = Inl OutOfBounds
   \<and> ApplyAdaMax \<lparr>launch_ok = True\<rparr>
     \<lparr>AdaMax.var = [0], m = [0], v = [0], beta1_power = 1 / 2, lr = 1,
      beta1 = 1 / 2, beta2 = 1 / 2, epsilon = 1, grad = [1]\<rparr>
   = Inr \<lparr>AdaMax.var = [- 1 / 2], m = [1 / 2], v = [1], beta1_power = 1 / 2, lr = 1,
      beta1 = 1 / 2, beta2 = 1 / 2, epsilon = 1, grad = [1]\<rparr>"
proof -
  have "ApplyAdaMax \<lparr>launch_ok = True\<rparr>
     \<lparr>AdaMax.var = [0, 0], m = [0, 0], v = [0, 0], beta1_power = 1 / 2, lr = 1,
      beta1 = 1 / 2, beta2 = 1 / 2, epsilon = 1, grad = [1, 1]\<rparr>
   = Inl OutOfBounds"
    by (rule ApplyAdaMax_out_of_bounds [where N = 2]) simp_all
  moreover have "ApplyAdaMax \<lparr>launch_ok = True\<rparr>
     \<lparr>AdaMax.var = [0], m = [0], v = [0], beta1_power = 1 / 2, lr = 1,
      beta1 = 1 / 2, beta2 = 1 / 2, epsilon = 1, grad = [1]\<rparr>
   = Inr \<lparr>AdaMax.var = [- 1 / 2], m = [1 / 2], v = [1], beta1_power = 1 / 2, lr = 1,
      beta1 = 1 / 2, beta2 = 1 / 2, epsilon = 1, grad = [1]\<rparr>"
    by (simp add: ApplyAdaMax_def Let_def assign_simps)
  ultimately show ?thesis by simp
qed

subsection \<open>Calls on empty arrays\<close>

lemma device_assign_empty: "dimension e = 0 \<Longrightarrow> device_assign [] e = Inr []"
  by (simp add: device_assign_def)

lemma int32_of_Index_0: "int32_of_Index 0 = 0"
  by (simp add: int32_of_Index_def)

lemmas empty_simps =
  device_assign_empty device_add_assign_def device_sub_assign_def Let_def
  int32_of_Index_0 GetGpuLaunchConfig_def

text \<open>
  C7, as amended. A call with \<open>N = 0\<close> (every array empty) changes no array. Where the
  functor evaluates Eigen expressions (every functor without \<open>TENSORFLOW_USE_ROCM\<close>, and
  GradientDescent, Momentum, KerasMomentum, Adam, AdamWithAmsgrad, AdaMax, AddSign and
  PowerSign always) the call is not rejected: it returns, with its arguments as they
  were. Where the functor launches a kernel (Adagrad, AdagradV2, Adadelta, RMSProp and
  CenteredRMSProp under \<open>TENSORFLOW_USE_ROCM\<close>) the call stops as fatal in
  \<open>GetGpuLaunchConfig\<close>, before the launch.
\<close>

theorem empty_call:
  "(GradientDescent.var gd = [] \<and> GradientDescent.grad gd = []
      \<longrightarrow> ApplyGradientDescent d gd = Inr gd)
   \<and> (Adagrad.var ag = [] \<and> Adagrad.accum ag = [] \<and> Adagrad.grad ag = []
      \<longrightarrow> ApplyAdagrad False Ta d ag = Inr ag
        \<and> ApplyAdagrad True Ta d ag = Inl Fatal)
   \<and> (AdagradV2.var agv = [] \<and> AdagradV2.accum agv = []
    \<and> AdagradV2.grad agv = []
      \<longrightarrow> ApplyAdagradV2 False Tb d agv = Inr agv
        \<and> ApplyAdagradV2 True Tb d agv = Inl Fatal)
   \<and> (Adadelta.var ad = [] \<and> Adadelta.accum ad = [] \<and> Adadelta.accum_upd ad = []
    \<and> Adadelta.grad ad = []
      \<longrightarrow> ApplyAdadelta False Tc d ad = Inr ad
        \<and> ApplyAdadelta True Tc d ad = Inl Fatal)
   \<and> (Momentum.var mo = [] \<and> Momentum.accum mo = [] \<and> Momentum.grad mo = []
      \<longrightarrow> ApplyMomentum d mo = Inr mo)
   \<and> (KerasMomentum.var km = [] \<and> KerasMomentum.accum km = []
    \<and> KerasMomentum.grad km = []
      \<longrightarrow> ApplyKerasMomentum d km = Inr km)
   \<and> (Adam.var am = [] \<and> Adam.m am = [] \<and> Adam.v am = []
    \<and> Adam.grad am = []
      \<longrightarrow> ApplyAdam Td d am = Inr am)
   \<and> (AdamWithAmsgrad.var ams = [] \<and> AdamWithAmsgrad.m ams = []
    \<and> AdamWithAmsgrad.v ams = [] \<and> AdamWithAmsgrad.vhat ams = []
    \<and> AdamWithAmsgrad.grad ams = []
      \<longrightarrow> ApplyAdamWithAmsgrad Te d ams = Inr ams)
   \<and> (AdaMax.var amx = [] \<and> AdaMax.m amx = [] \<and> AdaMax.v amx = []
    \<and> AdaMax.grad amx = []
      \<longrightarrow> ApplyAdaMax d amx = Inr amx)
   \<and> (RMSProp.var rp = [] \<and> RMSProp.ms rp = [] \<and> RMSProp.mom rp = []
    \<and> RMSProp.grad rp = []
      \<longrightarrow> ApplyRMSProp False Tf d rp = Inr rp
        \<and> ApplyRMSProp True Tf d rp = Inl Fatal)
   \<and> (CenteredRMSProp.var crp = [] \<and> CenteredRMSProp.mg crp = []
    \<and> CenteredRMSProp.ms crp = [] \<and> CenteredRMSProp.mom crp = []
    \<and> CenteredRMSProp.grad crp = []
      \<longrightarrow> ApplyCenteredRMSProp False Tg d crp = Inr crp
        \<and> ApplyCenteredRMSProp True Tg d crp = Inl Fatal)
   \<and> (AddSign.var asg = [] \<and> AddSign.m asg = [] \<and> AddSign.grad asg = []
      \<longrightarrow> ApplyAddSign d asg = Inr asg)
   \<and> (PowerSign.var ps = [] \<and> PowerSign.m ps = [] \<and> PowerSign.grad ps = []
      \<longrightarrow> ApplyPowerSign d ps = Inr ps)"
  by (simp add: ApplyGradientDescent_def ApplyAdagrad_def ApplyAdagradV2_def ApplyAdadelta_def
      ApplyMomentum_def ApplyKerasMomentum_def ApplyAdam_def ApplyAdamWithAmsgrad_def
      ApplyAdaMax_def ApplyRMSProp_def ApplyCenteredRMSProp_def ApplyAddSign_def
      ApplyPowerSign_def empty_simps)

theorem empty_call_witness:
  "ApplyGradientDescent \<lparr>launch_ok = True\<rparr>
        \<lparr>GradientDescent.var = [] :: real list, lr = 1, grad = []\<rparr>
     = Inr \<lparr>GradientDescent.var = [] :: real list, lr = 1, grad = []\<rparr>
   \<and> ApplyAdagrad False T_double \<lparr>launch_ok = True\<rparr>
        \<lparr>Adagrad.var = [] :: real list, accum = [], lr = 1, grad = [],
           update_slots = False\<rparr>
     = Inr \<lparr>Adagrad.var = [] :: real list, accum = [], lr = 1, grad = [],
           update_slots = False\<rparr>
   \<and> ApplyAdagrad True T_double \<lparr>launch_ok = True\<rparr>
        \<lparr>Adagrad.var = [] :: real list, accum = [], lr = 1, grad = [],
           update_slots = False\<rparr>
     = Inl Fatal
   \<and> ApplyAdagradV2 False T_double \<lparr>launch_ok = True\<rparr>
        \<lparr>AdagradV2.var = [] :: real list, accum = [], lr = 1, epsilon = 0, grad = [],
           update_slots = False\<rparr>
     = Inr \<lparr>AdagradV2.var = [] :: real list, accum = [], lr = 1, epsilon = 0, grad = [],
           update_slots = False\<rparr>
   \<and> ApplyAdagradV2 True T_double \<lparr>launch_ok = True\<rparr>
        \<lparr>AdagradV2.var = [] :: real list, accum = [], lr = 1, epsilon = 0, grad = [],
           update_slots = False\<rparr>
     = Inl Fatal
   \<and> ApplyAdadelta False T_double \<lparr>launch_ok = True\<rparr>
        \<lparr>Adadelta.var = [] :: real list, accum = [], accum_upd = [], lr = 1, rho = 1,
           epsilon = 0, grad = []\<rparr>
     = Inr \<lparr>Adadelta.var = [] :: real list, accum = [], accum_upd = [], lr = 1, rho = 1,
           epsilon = 0, grad = []\<rparr>
   \<and> ApplyAdadelta True T_double \<lparr>launch_ok = True\<rparr>
        \<lparr>Adadelta.var = [] :: real list, accum = [], accum_upd = [], lr = 1, rho = 1,
           epsilon = 0, grad = []\<rparr>
     = Inl Fatal
   \<and> ApplyMomentum \<lparr>launch_ok = True\<rparr>
        \<lparr>Momentum.var = [] :: real list, accum = [], lr = 1, grad = [], momentum = 1,
           use_nesterov = False\<rparr>
     = Inr \<lparr>Momentum.var = [] :: real list, accum = [], lr = 1, grad = [], momentum = 1,
           use_nesterov = False\<rparr>
   \<and> ApplyKerasMomentum \<lparr>launch_ok = True\<rparr>
        \<lparr>KerasMomentum.var = [] :: real list, accum = [], lr = 1, grad = [],
           momentum = 1, use_nesterov = False\<rparr>
     = Inr \<lparr>KerasMomentum.var = [] :: real list, accum = [], lr = 1, grad = [],
           momentum = 1, use_nesterov = False\<rparr>
   \<and> ApplyAdam T_double \<lparr>launch_ok = True\<rparr>
        \<lparr>Adam.var = [] :: real list, m = [], v = [], beta1_power = 0, beta2_power = 0,
           lr = 1, beta1 = 0, beta2 = 1, epsilon = 0, grad = [], use_nesterov = False\<rparr>
     = Inr \<lparr>Adam.var = [] :: real list, m = [], v = [], beta1_power = 0, beta2_power = 0,
           lr = 1, beta1 = 0, beta2 = 1, epsilon = 0, grad = [], use_nesterov = False\<rparr>
   \<and> ApplyAdamWithAmsgrad T_double \<lparr>launch_ok = True\<rparr>
        \<lparr>AdamWithAmsgrad.var = [] :: real list, m = [], v = [], vhat = [],
           beta1_power = 0, beta2_power = 0, lr = 1, beta1 = 0, beta2 = 1, epsilon = 0,
           grad = []\<rparr>
     = Inr \<lparr>AdamWithAmsgrad.var = [] :: real list, m = [], v = [], vhat = [],
           beta1_power = 0, beta2_power = 0, lr = 1, beta1 = 0, beta2 = 1, epsilon = 0,
           grad = []\<rparr>
   \<and> ApplyAdaMax \<lparr>launch_ok = True\<rparr>
        \<lparr>AdaMax.var = [] :: real list, m = [], v = [], beta1_power = 0, lr = 1,
           beta1 = 0, beta2 = 1, epsilon = 0, grad = []\<rparr>
     = Inr \<lparr>AdaMax.var = [] :: real list, m = [], v = [], beta1_power = 0, lr = 1,
           beta1 = 0, beta2 = 1, epsilon = 0, grad = []\<rparr>
   \<and> ApplyRMSProp False T_double \<lparr>launch_ok = True\<rparr>
        \<lparr>RMSProp.var = [] :: real list, ms = [], mom = [], lr = 1, rho = 1,
           momentum = 1, epsilon = 0, grad = []\<rparr>
     = Inr \<lparr>RMSProp.var = [] :: real list, ms = [], mom = [], lr = 1, rho = 1,
           momentum = 1, epsilon = 0, grad = []\<rparr>
   \<and> ApplyRMSProp True T_double \<lparr>launch_ok = True\<rparr>
        \<lparr>RMSProp.var = [] :: real list, ms = [], mom = [], lr = 1, rho = 1,
           momentum = 1, epsilon = 0, grad = []\<rparr>
     = Inl Fatal
   \<and> ApplyCenteredRMSProp False T_double \<lparr>launch_ok = True\<rparr>
        \<lparr>CenteredRMSProp.var = [] :: real list, mg = [], ms = [], mom = [], lr = 1,
           rho = 1, momentum = 1, epsilon = 0, grad = []\<rparr>
     = Inr \<lparr>CenteredRMSProp.var = [] :: real list, mg = [], ms = [], mom = [], lr = 1,
           rho = 1, momentum = 1, epsilon = 0, grad = []\<rparr>
   \<and> ApplyCenteredRMSProp True T_double \<lparr>launch_ok = True\<rparr>
        \<lparr>CenteredRMSProp.var = [] :: real list, mg = [], ms = [], mom = [], lr = 1,
           rho = 1, momentum = 1, epsilon = 0, grad = []\<rparr>
     = Inl Fatal
   \<and> ApplyAddSign \<lparr>launch_ok = True\<rparr>
        \<lparr>AddSign.var = [] :: real list, m = [], lr = 1, alpha = 1, sign_decay = 1,
           beta = 1, grad = []\<rparr>
     = Inr \<lparr>AddSign.var = [] :: real list, m = [], lr = 1, alpha = 1, sign_decay = 1,
           beta = 1, grad = []\<rparr>
   \<and> ApplyPowerSign \<lparr>launch_ok = True\<rparr>
        \<lparr>PowerSign.var = [] :: real list, m = [], lr = 1, logbase = 0, sign_decay = 1,
           beta = 1, grad = []\<rparr>
     = Inr \<lparr>PowerSign.var = [] :: real list, m = [], lr = 1, logbase = 0, sign_decay = 1,
           beta = 1, grad = []\<rparr>"
  using empty_call [where d = "\<lparr>launch_ok = True\<rparr>"
      and gd = "\<lparr>GradientDescent.var = [] :: real list, lr = 1, grad = []\<rparr>"
      and ag = "\<lparr>Adagrad.var = [] :: real list, accum = [], lr = 1, grad = [],
             update_slots = False\<rparr>"
      and Ta = T_double
      and agv = "\<lparr>AdagradV2.var = [] :: real list, accum = [], lr = 1, epsilon = 0, grad = [],
             update_slots = False\<rparr>"
      and Tb = T_double
      and ad = "\<lparr>Adadelta.var = [] :: real list, accum = [], accum_upd = [], lr = 1, rho = 1,
             epsilon = 0, grad = []\<rparr>"
      and Tc = T_double
      and mo = "\<lparr>Momentum.var = [] :: real list, accum = [], lr = 1, grad = [], momentum = 1,
             use_nesterov = False\<rparr>"
      and km = "\<lparr>KerasMomentum.var = [] :: real list, accum = [], lr = 1, grad = [],
             momentum = 1, use_nesterov = False\<rparr>"
      and am = "\<lparr>Adam.var = [] :: real list, m = [], v = [], beta1_power = 0,
             beta2_power = 0, lr = 1, beta1 = 0, beta2 = 1, epsilon = 0, grad = [],
             use_nesterov = False\<rparr>"
      and Td = T_double
      and ams = "\<lparr>AdamWithAmsgrad.var = [] :: real list, m = [], v = [], vhat = [],
             beta1_power = 0, beta2_power = 0, lr = 1, beta1 = 0, beta2 = 1, epsilon = 0,
             grad = []\<rparr>"
      and Te = T_double
      and amx = "\<lparr>AdaMax.var = [] :: real list, m = [], v = [], beta1_power = 0, lr = 1,
             beta1 = 0, beta2 = 1, epsilon = 0, grad = []\<rparr>"
      and rp = "\<lparr>RMSProp.var = [] :: real list, ms = [], mom = [], lr = 1, rho = 1,
             momentum = 1, epsilon = 0, grad = []\<rparr>"
      and Tf = T_double
      and crp = "\<lparr>CenteredRMSProp.var = [] :: real list, mg = [], ms = [], mom = [], lr = 1,
             rho = 1, momentum = 1, epsilon = 0, grad = []\<rparr>"
      and Tg = T_double
      and asg = "\<lparr>AddSign.var = [] :: real list, m = [], lr = 1, alpha = 1, sign_decay = 1,
             beta = 1, grad = []\<rparr>"
      and ps = "\<lparr>PowerSign.var = [] :: real list, m = [], lr = 1, logbase = 0,
             sign_decay = 1, beta = 1, grad = []\<rparr>"]
  by simp

text \<open>
  The claim as stated fails for \<open>ApplyAdam\<close>, and for \<open>ApplyAdagrad\<close> without
  \<open>TENSORFLOW_USE_ROCM\<close>: on empty arrays the call is not rejected, it returns.
\<close>

theorem empty_call_counterexample:
  "ApplyAdam T_double \<lparr>launch_ok = True\<rparr>
     \<lparr>Adam.var = [], m = [], v = [], beta1_power = 0.9, beta2_power = 0.999, lr = 0.001,
      beta1 = 0.9, beta2 = 0.999, epsilon = 1 / 10 ^ 8, grad = [], use_nesterov = False\<rparr>
   = Inr \<lparr>Adam.var = [], m = [], v = [], beta1_power = 0.9, beta2_power = 0.999,
      lr = 0.001, beta1 = 0.9, beta2 = 0.999, epsilon = 1 / 10 ^ 8, grad = [],
      use_nesterov = False\<rparr>
   \<and> ApplyAdagrad False T_double \<lparr>launch_ok = True\<rparr>
     \<lparr>Adagrad.var = [], accum = [], lr = 0.1, grad = [], update_slots = True\<rparr>
   = Inr \<lparr>Adagrad.var = [], accum = [], lr = 0.1, grad = [], update_slots = True\<rparr>"
  by (simp add: ApplyAdam_def ApplyAdagrad_def empty_simps)

subsection \<open>What a call leaves unchanged\<close>

lemma kernel_loop_preserves:
  assumes "\<And>i s s'. body i s = Inr s' \<Longrightarrow> f s' = f s"
    and "kernel_loop n body s = Inr s'"
  shows "f s' = f s"
  using assms(2)
proof (induction n arbitrary: s')
  case 0
  then show ?case by simp
next
  case (Suc n)
  then show ?case
    using assms(1) by (auto simp: bind_result_def split: sum.splits)
qed

lemma ApplyGradientDescent_frame:
  assumes "ApplyGradientDescent d s = Inr s'"
  shows "GradientDescent.grad s' = GradientDescent.grad s
         \<and> GradientDescent.lr s' = GradientDescent.lr s"
  using assms
  by (auto simp: ApplyGradientDescent_def Let_def bind_result_def split: sum.splits if_splits)

lemma ApplyAdagradKernel_frame:
  assumes "ApplyAdagradKernel T cfg s = Inr s'"
  shows "Adagrad.grad s' = Adagrad.grad s \<and> Adagrad.lr s' = Adagrad.lr s
         \<and> Adagrad.update_slots s' = Adagrad.update_slots s"
proof -
  have "(\<lambda>s. (Adagrad.grad s, Adagrad.lr s, Adagrad.update_slots s)) s' =
        (\<lambda>s. (Adagrad.grad s, Adagrad.lr s, Adagrad.update_slots s)) s"
    using assms unfolding ApplyAdagradKernel_def GPU_1D_KERNEL_LOOP_def Let_def
    by (rule kernel_loop_preserves [rotated]) (auto simp: Let_def split: if_splits)
  then show ?thesis by simp
qed

lemma ApplyAdagrad_frame:
  assumes "ApplyAdagrad rocm T d s = Inr s'"
  shows "Adagrad.grad s' = Adagrad.grad s \<and> Adagrad.lr s' = Adagrad.lr s
         \<and> Adagrad.update_slots s' = Adagrad.update_slots s"
proof (cases rocm)
  case True
  with assms obtain cfg where "ApplyAdagradKernel T cfg s = Inr s'"
    by (auto simp: ApplyAdagrad_def Let_def GpuLaunchKernel_def bind_result_def
        split: sum.splits if_splits)
  then show ?thesis by (rule ApplyAdagradKernel_frame)
next
  case False
  with assms show ?thesis
    by (auto simp: ApplyAdagrad_def Let_def bind_result_def split: sum.splits if_splits)
qed

lemma ApplyAdagradV2Kernel_frame:
  assumes "ApplyAdagradV2Kernel T cfg s = Inr s'"
  shows "AdagradV2.grad s' = AdagradV2.grad s \<and> AdagradV2.lr s' = AdagradV2.lr s
         \<and> AdagradV2.epsilon s' = AdagradV2.epsilon s
         \<and> AdagradV2.update_slots s' = AdagradV2.update_slots s"
proof -
  have "(\<lambda>s. (AdagradV2.grad s, AdagradV2.lr s, AdagradV2.epsilon s, AdagradV2.update_slots s))
        s' =
        (\<lambda>s. (AdagradV2.grad s, AdagradV2.lr s, AdagradV2.epsilon s, AdagradV2.update_slots s))
        s"
    using assms unfolding ApplyAdagradV2Kernel_def GPU_1D_KERNEL_LOOP_def Let_def
    by (rule kernel_loop_preserves [rotated]) (auto simp: Let_def split: if_splits)
  then show ?thesis by simp
qed

lemma ApplyAdagradV2_frame:
  assumes "ApplyAdagradV2 rocm T d s = Inr s'"
  shows "AdagradV2.grad s' = AdagradV2.grad s \<and> AdagradV2.lr s' = AdagradV2.lr s
         \<and> AdagradV2.epsilon s' = AdagradV2.epsilon s
         \<and> AdagradV2.update_slots s' = AdagradV2.update_slots s"
proof (cases rocm)
  case True
  with assms obtain cfg where "ApplyAdagradV2Kernel T cfg s = Inr s'"
    by (auto simp: ApplyAdagradV2_def Let_def GpuLaunchKernel_def bind_result_def
        split: sum.splits if_splits)
  then show ?thesis by (rule ApplyAdagradV2Kernel_frame)
next
  case False
  with assms show ?thesis
    by (auto simp: ApplyAdagradV2_def Let_def bind_result_def split: sum.splits if_splits)
qed

lemma ApplyAdadeltaKernel_frame:
  assumes "ApplyAdadeltaKernel T cfg s = Inr s'"
  shows "Adadelta.grad s' = Adadelta.grad s \<and> Adadelta.lr s' = Adadelta.lr s
         \<and> Adadelta.rho s' = Adadelta.rho s
         \<and> Adadelta.epsilon s' = Adadelta.epsilon s"
proof -
  have "(\<lambda>s. (Adadelta.grad s, Adadelta.lr s, Adadelta.rho s, Adadelta.epsilon s))
        s' =
        (\<lambda>s. (Adadelta.grad s, Adadelta.lr s, Adadelta.rho s, Adadelta.epsilon s))
        s"
    using assms unfolding ApplyAdadeltaKernel_def GPU_1D_KERNEL_LOOP_def Let_def
    by (rule kernel_loop_preserves [rotated]) (auto simp: Let_def split: if_splits)
  then show ?thesis by simp
qed

lemma ApplyAdadelta_frame:
  assumes "ApplyAdadelta rocm T d s = Inr s'"
  shows "Adadelta.grad s' = Adadelta.grad s \<and> Adadelta.lr s' = Adadelta.lr s
         \<and> Adadelta.rho s' = Adadelta.rho s
         \<and> Adadelta.epsilon s' = Adadelta.epsilon s"
proof (cases rocm)
  case True
  with assms obtain cfg where "ApplyAdadeltaKernel T cfg s = Inr s'"
    by (auto simp: ApplyAdadelta_def Let_def GpuLaunchKernel_def bind_result_def
        split: sum.splits if_splits)
  then show ?thesis by (rule ApplyAdadeltaKernel_frame)
next
  case False
  with assms show ?thesis
    by (auto simp: ApplyAdadelta_def Let_def bind_result_def split: sum.splits if_splits)
qed

lemma ApplyMomentum_frame:
  assumes "ApplyMomentum d s = Inr s'"
  shows "Momentum.grad s' = Momentum.grad s \<and> Momentum.lr s' = Momentum.lr s
         \<and> Momentum.momentum s' = Momentum.momentum s
         \<and> Momentum.use_nesterov s' = Momentum.use_nesterov s"
  using assms
  by (auto simp: ApplyMomentum_def Let_def bind_result_def split: sum.splits if_splits)

lemma ApplyKerasMomentum_frame:
  assumes "ApplyKerasMomentum d s = Inr s'"
  shows "KerasMomentum.grad s' = KerasMomentum.grad s
         \<and> KerasMomentum.lr s' = KerasMomentum.lr s
         \<and> KerasMomentum.momentum s' = KerasMomentum.momentum s
         \<and> KerasMomentum.use_nesterov s' = KerasMomentum.use_nesterov s"
  using assms
  by (auto simp: ApplyKerasMomentum_def Let_def bind_result_def split: sum.splits if_splits)

lemma ApplyAdam_frame:
  assumes "ApplyAdam T d s = Inr s'"
  shows "Adam.grad s' = Adam.grad s \<and> Adam.beta1_power s' = Adam.beta1_power s
         \<and> Adam.beta2_power s' = Adam.beta2_power s \<and> Adam.lr s' = Adam.lr s
         \<and> Adam.beta1 s' = Adam.beta1 s \<and> Adam.beta2 s' = Adam.beta2 s
         \<and> Adam.epsilon s' = Adam.epsilon s
         \<and> Adam.use_nesterov s' = Adam.use_nesterov s"
  using assms
  by (auto simp: ApplyAdam_def Let_def bind_result_def split: sum.splits if_splits)

lemma ApplyAdamWithAmsgrad_frame:
  assumes "ApplyAdamWithAmsgrad T d s = Inr s'"
  shows "AdamWithAmsgrad.grad s' = AdamWithAmsgrad.grad s
         \<and> AdamWithAmsgrad.beta1_power s' = AdamWithAmsgrad.beta1_power s
         \<and> AdamWithAmsgrad.beta2_power s' = AdamWithAmsgrad.beta2_power s
         \<and> AdamWithAmsgrad.lr s' = AdamWithAmsgrad.lr s
         \<and> AdamWithAmsgrad.beta1 s' = AdamWithAmsgrad.beta1 s
         \<and> AdamWithAmsgrad.beta2 s' = AdamWithAmsgrad.beta2 s
         \<and> AdamWithAmsgrad.epsilon s' = AdamWithAmsgrad.epsilon s"
  using assms
  by (auto simp: ApplyAdamWithAmsgrad_def Let_def bind_result_def split: sum.splits if_splits)

lemma ApplyAdaMax_frame:
  assumes "ApplyAdaMax d s = Inr s'"
  shows "AdaMax.grad s' = AdaMax.grad s
         \<and> AdaMax.beta1_power s' = AdaMax.beta1_power s \<and> AdaMax.lr s' = AdaMax.lr s
         \<and> AdaMax.beta1 s' = AdaMax.beta1 s \<and> AdaMax.beta2 s' = AdaMax.beta2 s
         \<and> AdaMax.epsilon s' = AdaMax.epsilon s"
  using assms
  by (auto simp: ApplyAdaMax_def Let_def bind_result_def split: sum.splits if_splits)

lemma ApplyRMSPropKernel_frame:
  assumes "ApplyRMSPropKernel T cfg s = Inr s'"
  shows "RMSProp.grad s' = RMSProp.grad s \<and> RMSProp.lr s' = RMSProp.lr s
         \<and> RMSProp.rho s' = RMSProp.rho s \<and> RMSProp.momentum s' = RMSProp.momentum s
         \<and> RMSProp.epsilon s' = RMSProp.epsilon s"
proof -
  have "(\<lambda>s. (RMSProp.grad s, RMSProp.lr s, RMSProp.rho s, RMSProp.momentum s,
      RMSProp.epsilon s))
        s' =
        (\<lambda>s. (RMSProp.grad s, RMSProp.lr s, RMSProp.rho s, RMSProp.momentum s,
            RMSProp.epsilon s))
        s"
    using assms unfolding ApplyRMSPropKernel_def GPU_1D_KERNEL_LOOP_def Let_def
    by (rule kernel_loop_preserves [rotated]) (auto simp: Let_def split: if_splits)
  then show ?thesis by simp
qed

lemma ApplyRMSProp_frame:
  assumes "ApplyRMSProp rocm T d s = Inr s'"
  shows "RMSProp.grad s' = RMSProp.grad s \<and> RMSProp.lr s' = RMSProp.lr s
         \<and> RMSProp.rho s' = RMSProp.rho s \<and> RMSProp.momentum s' = RMSProp.momentum s
         \<and> RMSProp.epsilon s' = RMSProp.epsilon s"
proof (cases rocm)
  case True
  with assms obtain cfg where "ApplyRMSPropKernel T cfg s = Inr s'"
    by (auto simp: ApplyRMSProp_def Let_def GpuLaunchKernel_def bind_result_def
        split: sum.splits if_splits)
  then show ?thesis by (rule ApplyRMSPropKernel_frame)
next
  case False
  with assms show ?thesis
    by (auto simp: ApplyRMSProp_def Let_def bind_result_def split: sum.splits if_splits)
qed

lemma ApplyCenteredRMSPropKernel_frame:
  assumes "ApplyCenteredRMSPropKernel T cfg s = Inr s'"
  shows "CenteredRMSProp.grad s' = CenteredRMSProp.grad s
         \<and> CenteredRMSProp.lr s' = CenteredRMSProp.lr s
         \<and> CenteredRMSProp.rho s' = CenteredRMSProp.rho s
         \<and> CenteredRMSProp.momentum s' = CenteredRMSProp.momentum s
         \<and> CenteredRMSProp.epsilon s' = CenteredRMSProp.epsilon s"
proof -
  have "(\<lambda>s. (CenteredRMSProp.grad s, CenteredRMSProp.lr s, CenteredRMSProp.rho s,
      CenteredRMSProp.momentum s, CenteredRMSProp.epsilon s))
        s' =
        (\<lambda>s. (CenteredRMSProp.grad s, CenteredRMSProp.lr s, CenteredRMSProp.rho s,
            CenteredRMSProp.momentum s, CenteredRMSProp.epsilon s))
        s"
    using assms unfolding ApplyCenteredRMSPropKernel_def GPU_1D_KERNEL_LOOP_def Let_def
    by (rule kernel_loop_preserves [rotated]) (auto simp: Let_def split: if_splits)
  then show ?thesis by simp
qed

lemma ApplyCenteredRMSProp_frame:
  assumes "ApplyCenteredRMSProp rocm T d s = Inr s'"
  shows "CenteredRMSProp.grad s' = CenteredRMSProp.grad s
         \<and> CenteredRMSProp.lr s' = CenteredRMSProp.lr s
         \<and> CenteredRMSProp.rho s' = CenteredRMSProp.rho s
         \<and> CenteredRMSProp.momentum s' = CenteredRMSProp.momentum s
         \<and> CenteredRMSProp.epsilon s' = CenteredRMSProp.epsilon s"
proof (cases rocm)
  case True
  with assms obtain cfg where "ApplyCenteredRMSPropKernel T cfg s = Inr s'"
    by (auto simp: ApplyCenteredRMSProp_def Let_def GpuLaunchKernel_def bind_result_def
        split: sum.splits if_splits)
  then show ?thesis by (rule ApplyCenteredRMSPropKernel_frame)
next
  case False
  with assms show ?thesis
    by (auto simp: ApplyCenteredRMSProp_def Let_def bind_result_def split: sum.splits if_splits)
qed

lemma ApplyAddSign_frame:
  assumes "ApplyAddSign d s = Inr s'"
  shows "AddSign.grad s' = AddSign.grad s \<and> AddSign.lr s' = AddSign.lr s
         \<and> AddSign.alpha s' = AddSign.alpha s
         \<and> AddSign.sign_decay s' = AddSign.sign_decay s
         \<and> AddSign.beta s' = AddSign.beta s"
  using assms
  by (auto simp: ApplyAddSign_def Let_def bind_result_def split: sum.splits if_splits)

lemma ApplyPowerSign_frame:
  assumes "ApplyPowerSign d s = Inr s'"
  shows "PowerSign.grad s' = PowerSign.grad s \<and> PowerSign.lr s' = PowerSign.lr s
         \<and> PowerSign.logbase s' = PowerSign.logbase s
         \<and> PowerSign.sign_decay s' = PowerSign.sign_decay s
         \<and> PowerSign.beta s' = PowerSign.beta s"
  using assms
  by (auto simp: ApplyPowerSign_def Let_def bind_result_def split: sum.splits if_splits)

text \<open>
  C8. Whenever a functor returns, on either path, the gradient array, every scalar
  hyperparameter and every flag of the returned arguments are those of the call: a call
  writes the parameter array and the state arrays of its family only.
\<close>

theorem gradient_and_hyperparameters_unchanged:
  "(\<forall>s'. ApplyGradientDescent d gd = Inr s' \<longrightarrow>
        GradientDescent.grad s' = GradientDescent.grad gd
        \<and> GradientDescent.lr s' = GradientDescent.lr gd)
   \<and> (\<forall>s'. ApplyAdagrad rocm Ta d ag = Inr s' \<longrightarrow>
        Adagrad.grad s' = Adagrad.grad ag \<and> Adagrad.lr s' = Adagrad.lr ag
        \<and> Adagrad.update_slots s' = Adagrad.update_slots ag)
   \<and> (\<forall>s'. ApplyAdagradV2 rocm Tb d agv = Inr s' \<longrightarrow>
        AdagradV2.grad s' = AdagradV2.grad agv \<and> AdagradV2.lr s' = AdagradV2.lr agv
        \<and> AdagradV2.epsilon s' = AdagradV2.epsilon agv
        \<and> AdagradV2.update_slots s' = AdagradV2.update_slots agv)
   \<and> (\<forall>s'. ApplyAdadelta rocm Tc d ad = Inr s' \<longrightarrow>
        Adadelta.grad s' = Adadelta.grad ad \<and> Adadelta.lr s' = Adadelta.lr ad
        \<and> Adadelta.rho s' = Adadelta.rho ad
        \<and> Adadelta.epsilon s' = Adadelta.epsilon ad)
   \<and> (\<forall>s'. ApplyMomentum d mo = Inr s' \<longrightarrow>
        Momentum.grad s' = Momentum.grad mo \<and> Momentum.lr s' = Momentum.lr mo
        \<and> Momentum.momentum s' = Momentum.momentum mo
        \<and> Momentum.use_nesterov s' = Momentum.use_nesterov mo)
   \<and> (\<forall>s'. ApplyKerasMomentum d km = Inr s' \<longrightarrow>
        KerasMomentum.grad s' = KerasMomentum.grad km
        \<and> KerasMomentum.lr s' = KerasMomentum.lr km
        \<and> KerasMomentum.momentum s' = KerasMomentum.momentum km
        \<and> KerasMomentum.use_nesterov s' = KerasMomentum.use_nesterov km)
   \<and> (\<forall>s'. ApplyAdam Td d am = Inr s' \<longrightarrow>
        Adam.grad s' = Adam.grad am \<and> Adam.beta1_power s' = Adam.beta1_power am
        \<and> Adam.beta2_power s' = Adam.beta2_power am \<and> Adam.lr s' = Adam.lr am
        \<and> Adam.beta1 s' = Adam.beta1 am \<and> Adam.beta2 s' = Adam.beta2 am
        \<and> Adam.epsilon s' = Adam.epsilon am
        \<and> Adam.use_nesterov s' = Adam.use_nesterov am)
   \<and> (\<forall>s'. ApplyAdamWithAmsgrad Te d ams = Inr s' \<longrightarrow>
        AdamWithAmsgrad.grad s' = AdamWithAmsgrad.grad ams
        \<and> AdamWithAmsgrad.beta1_power s' = AdamWithAmsgrad.beta1_power ams
        \<and> AdamWithAmsgrad.beta2_power s' = AdamWithAmsgrad.beta2_power ams
        \<and> AdamWithAmsgrad.lr s' = AdamWithAmsgrad.lr ams
        \<and> AdamWithAmsgrad.beta1 s' = AdamWithAmsgrad.beta1 ams
        \<and> AdamWithAmsgrad.beta2 s' = AdamWithAmsgrad.beta2 ams
        \<and> AdamWithAmsgrad.epsilon s' = AdamWithAmsgrad.epsilon ams)
   \<and> (\<forall>s'. ApplyAdaMax d amx = Inr s' \<longrightarrow>
        AdaMax.grad s' = AdaMax.grad amx
        \<and> AdaMax.beta1_power s' = AdaMax.beta1_power amx
        \<and> AdaMax.lr s' = AdaMax.lr amx \<and> AdaMax.beta1 s' = AdaMax.beta1 amx
        \<and> AdaMax.beta2 s' = AdaMax.beta2 amx \<and> AdaMax.epsilon s' = AdaMax.epsilon amx)
   \<and> (\<forall>s'. ApplyRMSProp rocm Tf d rp = Inr s' \<longrightarrow>
        RMSProp.grad s' = RMSProp.grad rp \<and> RMSProp.lr s' = RMSProp.lr rp
        \<and> RMSProp.rho s' = RMSProp.rho rp \<and> RMSProp.momentum s' = RMSProp.momentum rp
        \<and> RMSProp.epsilon s' = RMSProp.epsilon rp)
   \<and> (\<forall>s'. ApplyCenteredRMSProp rocm Tg d crp = Inr s' \<longrightarrow>
        CenteredRMSProp.grad s' = CenteredRMSProp.grad crp
        \<and> CenteredRMSProp.lr s' = CenteredRMSProp.lr crp
        \<and> CenteredRMSProp.rho s' = CenteredRMSProp.rho crp
        \<and> CenteredRMSProp.momentum s' = CenteredRMSProp.momentum crp
        \<and> CenteredRMSProp.epsilon s' = CenteredRMSProp.epsilon crp)
   \<and> (\<forall>s'. ApplyAddSign d asg = Inr s' \<longrightarrow>
        AddSign.grad s' = AddSign.grad asg \<and> AddSign.lr s' = AddSign.lr asg
        \<and> AddSign.alpha s' = AddSign.alpha asg
        \<and> AddSign.sign_decay s' = AddSign.sign_decay asg
        \<and> AddSign.beta s' = AddSign.beta asg)
   \<and> (\<forall>s'. ApplyPowerSign d ps = Inr s' \<longrightarrow>
        PowerSign.grad s' = PowerSign.grad ps \<and> PowerSign.lr s' = PowerSign.lr ps
        \<and> PowerSign.logbase s' = PowerSign.logbase ps
        \<and> PowerSign.sign_decay s' = PowerSign.sign_decay ps
        \<and> PowerSign.beta s' = PowerSign.beta ps)"
  using ApplyGradientDescent_frame [of d gd] ApplyAdagrad_frame [of rocm Ta d ag]
    ApplyAdagradV2_frame [of rocm Tb d agv] ApplyAdadelta_frame [of rocm Tc d ad]
    ApplyMomentum_frame [of d mo] ApplyKerasMomentum_frame [of d km]
    ApplyAdam_frame [of Td d am] ApplyAdamWithAmsgrad_frame [of Te d ams]
    ApplyAdaMax_frame [of d amx] ApplyRMSProp_frame [of rocm Tf d rp]
    ApplyCenteredRMSProp_frame [of rocm Tg d crp] ApplyAddSign_frame [of d asg]
    ApplyPowerSign_frame [of d ps]
  by blast

theorem gradient_and_hyperparameters_unchanged_witness:
  "(\<exists>s'. ApplyGradientDescent \<lparr>launch_ok = True\<rparr>
          \<lparr>GradientDescent.var = [3 :: real], lr = 1, grad = [2]\<rparr> = Inr s'
        \<and> GradientDescent.grad s' = [2])
   \<and> (\<exists>s'. ApplyAdagrad True T_double \<lparr>launch_ok = True\<rparr>
          \<lparr>Adagrad.var = [3 :: real], accum = [4], lr = 1, grad = [2],
           update_slots = False\<rparr> = Inr s'
        \<and> Adagrad.grad s' = [2])
   \<and> (\<exists>s'. ApplyAdagradV2 True T_double \<lparr>launch_ok = True\<rparr>
          \<lparr>AdagradV2.var = [3 :: real], accum = [4], lr = 1, epsilon = 0, grad = [2],
           update_slots = False\<rparr> = Inr s'
        \<and> AdagradV2.grad s' = [2])
   \<and> (\<exists>s'. ApplyAdadelta True T_double \<lparr>launch_ok = True\<rparr>
          \<lparr>Adadelta.var = [3 :: real], accum = [4], accum_upd = [0], lr = 1, rho = 1,
           epsilon = 0, grad = [2]\<rparr> = Inr s'
        \<and> Adadelta.grad s' = [2])
   \<and> (\<exists>s'. ApplyMomentum \<lparr>launch_ok = True\<rparr>
          \<lparr>Momentum.var = [3 :: real], accum = [4], lr = 1, grad = [2], momentum = 1,
           use_nesterov = False\<rparr> = Inr s'
        \<and> Momentum.grad s' = [2])
   \<and> (\<exists>s'. ApplyKerasMomentum \<lparr>launch_ok = True\<rparr>
          \<lparr>KerasMomentum.var = [3 :: real], accum = [4], lr = 1, grad = [2],
           momentum = 1, use_nesterov = False\<rparr> = Inr s'
        \<and> KerasMomentum.grad s' = [2])
   \<and> (\<exists>s'. ApplyAdam T_double \<lparr>launch_ok = True\<rparr>
          \<lparr>Adam.var = [3 :: real], m = [1], v = [4], beta1_power = 0, beta2_power = 0,
           lr = 1, beta1 = 0, beta2 = 1, epsilon = 0, grad = [2], use_nesterov = False\<rparr> = Inr s'
        \<and> Adam.grad s' = [2])
   \<and> (\<exists>s'. ApplyAdamWithAmsgrad T_double \<lparr>launch_ok = True\<rparr>
          \<lparr>AdamWithAmsgrad.var = [3 :: real], m = [1], v = [4], vhat = [1],
           beta1_power = 0, beta2_power = 0, lr = 1, beta1 = 0, beta2 = 1, epsilon = 0,
           grad = [2]\<rparr> = Inr s'
        \<and> AdamWithAmsgrad.grad s' = [2])
   \<and> (\<exists>s'. ApplyAdaMax \<lparr>launch_ok = True\<rparr>
          \<lparr>AdaMax.var = [3 :: real], m = [1], v = [4], beta1_power = 0, lr = 1,
           beta1 = 0, beta2 = 1, epsilon = 0, grad = [2]\<rparr> = Inr s'
        \<and> AdaMax.grad s' = [2])
   \<and> (\<exists>s'. ApplyRMSProp True T_double \<lparr>launch_ok = True\<rparr>
          \<lparr>RMSProp.var = [3 :: real], ms = [4], mom = [1], lr = 1, rho = 1, momentum = 1,
           epsilon = 0, grad = [2]\<rparr> = Inr s'
        \<and> RMSProp.grad s' = [2])
   \<and> (\<exists>s'. ApplyCenteredRMSProp True T_double \<lparr>launch_ok = True\<rparr>
          \<lparr>CenteredRMSProp.var = [3 :: real], mg = [0], ms = [4], mom = [1], lr = 1,
           rho = 1, momentum = 1, epsilon = 0, grad = [2]\<rparr> = Inr s'
        \<and> CenteredRMSProp.grad s' = [2])
   \<and> (\<exists>s'. ApplyAddSign \<lparr>launch_ok = True\<rparr>
          \<lparr>AddSign.var = [3 :: real], m = [1], lr = 1, alpha = 1, sign_decay = 1,
           beta = 1, grad = [2]\<rparr> = Inr s'
        \<and> AddSign.grad s' = [2])
   \<and> (\<exists>s'. ApplyPowerSign \<lparr>launch_ok = True\<rparr>
          \<lparr>PowerSign.var = [3 :: real], m = [1], lr = 1, logbase = 0, sign_decay = 1,
           beta = 1, grad = [2]\<rparr> = Inr s'
        \<and> PowerSign.grad s' = [2])"
proof -
  let ?gd = "\<lparr>GradientDescent.var = [3 :: real], lr = 1, grad = [2]\<rparr>"
  let ?ag = "\<lparr>Adagrad.var = [3 :: real], accum = [4], lr = 1, grad = [2],
              update_slots = False\<rparr>"
  let ?agv = "\<lparr>AdagradV2.var = [3 :: real], accum = [4], lr = 1, epsilon = 0, grad = [2],
              update_slots = False\<rparr>"
  let ?ad = "\<lparr>Adadelta.var = [3 :: real], accum = [4], accum_upd = [0], lr = 1, rho = 1,
              epsilon = 0, grad = [2]\<rparr>"
  let ?mo = "\<lparr>Momentum.var = [3 :: real], accum = [4], lr = 1, grad = [2], momentum = 1,
              use_nesterov = False\<rparr>"
  let ?km = "\<lparr>KerasMomentum.var = [3 :: real], accum = [4], lr = 1, grad = [2],
              momentum = 1, use_nesterov = False\<rparr>"
  let ?am = "\<lparr>Adam.var = [3 :: real], m = [1], v = [4], beta1_power = 0, beta2_power = 0,
              lr = 1, beta1 = 0, beta2 = 1, epsilon = 0, grad = [2],
              use_nesterov = False\<rparr>"
  let ?ams = "\<lparr>AdamWithAmsgrad.var = [3 :: real], m = [1], v = [4], vhat = [1],
              beta1_power = 0, beta2_power = 0, lr = 1, beta1 = 0, beta2 = 1,
              epsilon = 0, grad = [2]\<rparr>"
  let ?amx = "\<lparr>AdaMax.var = [3 :: real], m = [1], v = [4], beta1_power = 0, lr = 1,
              beta1 = 0, beta2 = 1, epsilon = 0, grad = [2]\<rparr>"
  let ?rp = "\<lparr>RMSProp.var = [3 :: real], ms = [4], mom = [1], lr = 1, rho = 1,
              momentum = 1, epsilon = 0, grad = [2]\<rparr>"
  let ?crp = "\<lparr>CenteredRMSProp.var = [3 :: real], mg = [0], ms = [4], mom = [1], lr = 1,
              rho = 1, momentum = 1, epsilon = 0, grad = [2]\<rparr>"
  let ?asg = "\<lparr>AddSign.var = [3 :: real], m = [1], lr = 1, alpha = 1, sign_decay = 1,
              beta = 1, grad = [2]\<rparr>"
  let ?ps = "\<lparr>PowerSign.var = [3 :: real], m = [1], lr = 1, logbase = 0, sign_decay = 1,
              beta = 1, grad = [2]\<rparr>"
  have gd: "\<exists>s'. ApplyGradientDescent \<lparr>launch_ok = True\<rparr> ?gd = Inr s'"
    by (simp add: ApplyGradientDescent_def Let_def assign_simps)
  have ag: "\<exists>s'. ApplyAdagrad True T_double \<lparr>launch_ok = True\<rparr> ?ag = Inr s'"
    by (simp add: ApplyAdagrad_rocm_result [of ?ag 1])
  have agv: "\<exists>s'. ApplyAdagradV2 True T_double \<lparr>launch_ok = True\<rparr> ?agv = Inr s'"
    by (simp add: ApplyAdagradV2_rocm_result [of ?agv 1])
  have ad: "\<exists>s'. ApplyAdadelta True T_double \<lparr>launch_ok = True\<rparr> ?ad = Inr s'"
    by (simp add: ApplyAdadelta_rocm_result [of ?ad 1])
  have mo: "\<exists>s'. ApplyMomentum \<lparr>launch_ok = True\<rparr> ?mo = Inr s'"
    by (simp add: ApplyMomentum_def Let_def assign_simps)
  have km: "\<exists>s'. ApplyKerasMomentum \<lparr>launch_ok = True\<rparr> ?km = Inr s'"
    by (simp add: ApplyKerasMomentum_def Let_def assign_simps)
  have am: "\<exists>s'. ApplyAdam T_double \<lparr>launch_ok = True\<rparr> ?am = Inr s'"
    by (simp add: ApplyAdam_def Let_def assign_simps)
  have ams: "\<exists>s'. ApplyAdamWithAmsgrad T_double \<lparr>launch_ok = True\<rparr> ?ams = Inr s'"
    by (simp add: ApplyAdamWithAmsgrad_def Let_def assign_simps)
  have amx: "\<exists>s'. ApplyAdaMax \<lparr>launch_ok = True\<rparr> ?amx = Inr s'"
    by (simp add: ApplyAdaMax_def Let_def assign_simps)
  have rp: "\<exists>s'. ApplyRMSProp True T_double \<lparr>launch_ok = True\<rparr> ?rp = Inr s'"
    by (simp add: ApplyRMSProp_rocm_result [of ?rp 1])
  have crp: "\<exists>s'. ApplyCenteredRMSProp True T_double \<lparr>launch_ok = True\<rparr> ?crp = Inr s'"
    by (simp add: ApplyCenteredRMSProp_rocm_result [of ?crp 1])
  have asg: "\<exists>s'. ApplyAddSign \<lparr>launch_ok = True\<rparr> ?asg = Inr s'"
    by (simp add: ApplyAddSign_def Let_def assign_simps)
  have ps: "\<exists>s'. ApplyPowerSign \<lparr>launch_ok = True\<rparr> ?ps = Inr s'"
    by (simp add: ApplyPowerSign_def Let_def assign_simps)
  show ?thesis
    using gd ag agv ad mo km am ams amx rp crp asg ps
      gradient_and_hyperparameters_unchanged [where rocm = True and d = "\<lparr>launch_ok = True\<rparr>"
          and gd = ?gd
          and ag = ?ag and Ta = T_double and agv = ?agv and Tb = T_double and ad = ?ad
          and Tc = T_double and mo = ?mo and km = ?km and am = ?am and Td = T_double
          and ams = ?ams and Te = T_double and amx = ?amx and rp = ?rp and Tf = T_double
          and crp = ?crp and Tg = T_double and asg = ?asg and ps = ?ps]
    by simp blast
qed

end
